theory Spec2Isabelle
  imports Complex_Main
begin

section \<open>LendFlow: amortization calculator and loan ledger\<close>

text \<open>
  The server file of LendFlow (Express handlers over Mongoose models) is embedded here:
  the helper \<open>calculateMonthlyPayment\<close>, the handlers \<open>POST /api/v1/loans\<close>,
  \<open>POST /api/v1/loans/:loanId/payments\<close> and \<open>GET /api/v1/dashboard\<close>, and the
  validators of \<open>loanSchema\<close> and \<open>paymentSchema\<close> that run on \<open>save()\<close>.

  Reading of the numbers. A JavaScript number is a 64-bit double. The finite ones are read
  as the exact rationals they denote and every arithmetic step is exact: rounding error,
  overflow and underflow of the doubles are not part of this model. The two zeros are
  identified; a zero divisor is read as \<open>+0\<close>, which is the zero that a difference
  \<open>x - x\<close> and a JSON literal \<open>0\<close> produce. \<open>NaN\<close> and the two infinities appear
  where the source can produce them from finite inputs (a division by zero).

  Handlers run one at a time on the database value; interleavings of two requests at
  their \<open>await\<close> points are not modelled. Timestamps are left out.
\<close>

subsection \<open>Numbers\<close>

datatype jsnum = Num rat | PosInf | NegInf | NaN

fun js_mul :: "jsnum \<Rightarrow> jsnum \<Rightarrow> jsnum" where
  "js_mul NaN _ = NaN"
| "js_mul _ NaN = NaN"
| "js_mul (Num x) (Num y) = Num (x * y)"
| "js_mul (Num x) PosInf = (if x = 0 then NaN else if 0 < x then PosInf else NegInf)"
| "js_mul (Num x) NegInf = (if x = 0 then NaN else if 0 < x then NegInf else PosInf)"
| "js_mul PosInf (Num y) = (if y = 0 then NaN else if 0 < y then PosInf else NegInf)"
| "js_mul NegInf (Num y) = (if y = 0 then NaN else if 0 < y then NegInf else PosInf)"
| "js_mul PosInf PosInf = PosInf"
| "js_mul PosInf NegInf = NegInf"
| "js_mul NegInf PosInf = NegInf"
| "js_mul NegInf NegInf = PosInf"

fun js_sub :: "jsnum \<Rightarrow> jsnum \<Rightarrow> jsnum" where
  "js_sub NaN _ = NaN"
| "js_sub _ NaN = NaN"
| "js_sub (Num x) (Num y) = Num (x - y)"
| "js_sub (Num x) PosInf = NegInf"
| "js_sub (Num x) NegInf = PosInf"
| "js_sub PosInf (Num y) = PosInf"
| "js_sub NegInf (Num y) = NegInf"
| "js_sub PosInf PosInf = NaN"
| "js_sub NegInf NegInf = NaN"
| "js_sub PosInf NegInf = PosInf"
| "js_sub NegInf PosInf = NegInf"

fun js_div :: "jsnum \<Rightarrow> jsnum \<Rightarrow> jsnum" where
  "js_div NaN _ = NaN"
| "js_div _ NaN = NaN"
| "js_div (Num x) (Num y) =
     (if y \<noteq> 0 then Num (x / y)
      else if 0 < x then PosInf else if x < 0 then NegInf else NaN)"
| "js_div (Num x) PosInf = Num 0"
| "js_div (Num x) NegInf = Num 0"
| "js_div PosInf (Num y) = (if 0 \<le> y then PosInf else NegInf)"
| "js_div NegInf (Num y) = (if 0 \<le> y then NegInf else PosInf)"
| "js_div PosInf PosInf = NaN"
| "js_div PosInf NegInf = NaN"
| "js_div NegInf PosInf = NaN"
| "js_div NegInf NegInf = NaN"

text \<open>\<open>Math.round\<close>: the nearest integer, a tie going up (\<open>Math.round(2.5) = 3\<close>,
  \<open>Math.round(-2.5) = -2\<close>).\<close>

definition Math_round :: "rat \<Rightarrow> int" where
  "Math_round x = \<lfloor>x + 1 / 2\<rfloor>"

fun js_round :: "jsnum \<Rightarrow> jsnum" where
  "js_round (Num x) = Num (of_int (Math_round x))"
| "js_round PosInf = PosInf"
| "js_round NegInf = NegInf"
| "js_round NaN = NaN"

text \<open>The idiom \<open>Math.round(v * 100) / 100\<close> of the source, on a finite number and on
  any number.\<close>

definition round2 :: "rat \<Rightarrow> rat" where
  "round2 x = of_int (Math_round (x * 100)) / 100"

definition js_round2 :: "jsnum \<Rightarrow> jsnum" where
  "js_round2 v = js_div (js_round (js_mul v (Num 100))) (Num 100)"

text \<open>\<open>Math.pow\<close> at a finite base and a whole exponent. A zero base with a negative
  exponent gives \<open>Infinity\<close>. Fractional exponents are outside this model: the term of a
  loan is a whole number of months.\<close>

definition Math_pow :: "rat \<Rightarrow> int \<Rightarrow> jsnum" where
  "Math_pow x n =
     (if 0 \<le> n then Num (x ^ nat n)
      else if x = 0 then PosInf
      else Num (1 / x ^ nat (- n)))"

subsection \<open>Errors and responses\<close>

text \<open>What a \<open>catch\<close> block of a handler can receive: an \<open>Error\<close> thrown by the
  source itself, a \<open>TypeError\<close> of the runtime (a method called on a value that has none),
  a Mongoose \<open>ValidationError\<close> with the paths whose validators failed, and the duplicate
  key error of a unique index.\<close>

datatype js_error =
    Error string
  | TypeError
  | ValidationError "string list"
  | DuplicateKey

text \<open>A response is the success body, or a failure with its HTTP status, its
  \<open>message\<close> and, when it comes from the \<open>catch\<close> block, the error caught.\<close>

datatype 'a response =
    Success 'a
  | Failure nat string "js_error option"

fun is_failure :: "'a response \<Rightarrow> bool" where
  "is_failure (Success _) = False"
| "is_failure (Failure _ _ _) = True"

subsection \<open>The amortization calculator\<close>

text \<open>
  \<^verbatim>\<open>const calculateMonthlyPayment = (principal, annualRate, termMonths) => {
    try {
      const monthlyRate = annualRate / 100 / 12;
      if (monthlyRate === 0) return Math.round((principal / termMonths) * 100) / 100;
      const payment = principal * (monthlyRate * Math.pow(1 + monthlyRate, termMonths)) /
                      (Math.pow(1 + monthlyRate, termMonths) - 1);
      return Math.round(payment * 100) / 100;
    } catch (error) {
      throw new Error('Failed to calculate monthly payment');
    }
  };\<close>
  The \<open>try\<close> block holds arithmetic on numbers only, which never throws in JavaScript, so
  no input reaches the \<open>catch\<close>; the result type keeps the error channel of the source.
  The principal and the rate are finite numbers and the term is a whole number, positive
  or not. (The parameter is written \<open>principal'\<close>: HOL has a constant \<open>principal\<close>.)
\<close>

definition calculateMonthlyPayment :: "rat \<Rightarrow> rat \<Rightarrow> int \<Rightarrow> js_error + jsnum" where
  "calculateMonthlyPayment principal' annualRate termMonths =
     (let monthlyRate = annualRate / 100 / 12 in
      if monthlyRate = 0
      then Inr (js_round2 (js_div (Num principal') (Num (of_int termMonths))))
      else
        let payment =
              js_div
                (js_mul (Num principal')
                   (js_mul (Num monthlyRate) (Math_pow (1 + monthlyRate) termMonths)))
                (js_sub (Math_pow (1 + monthlyRate) termMonths) (Num 1))
        in Inr (js_round2 payment))"

subsection \<open>Values of a request body\<close>

text \<open>
  A field of a parsed JSON body: absent (\<open>undefined\<close>), \<open>null\<close>, a boolean, a number, a
  string, or an array or object. An array or object carries the string that its
  \<open>toString()\<close> gives, which is all that \<open>Number(v)\<close> reads of it.
  Strings are ASCII in this model.
\<close>

datatype jsval = JUndefined | JNull | JBool bool | JNum rat | JStr string | JObject string

text \<open>\<open>!v\<close> is \<open>\<not> truthy v\<close>.\<close>

fun truthy :: "jsval \<Rightarrow> bool" where
  "truthy JUndefined = False"
| "truthy JNull = False"
| "truthy (JBool b) = b"
| "truthy (JNum x) = (x \<noteq> 0)"
| "truthy (JStr s) = (s \<noteq> [])"
| "truthy (JObject s) = True"

text \<open>\<open>Number(v)\<close>. The conversion of a string (\<open>StringToNumber\<close> of ECMAScript) is a
  parameter \<open>s2n\<close> of the model: every theorem holds for each such function.\<close>

fun ToNumber :: "(string \<Rightarrow> jsnum) \<Rightarrow> jsval \<Rightarrow> jsnum" where
  "ToNumber s2n JUndefined = NaN"
| "ToNumber s2n JNull = Num 0"
| "ToNumber s2n (JBool b) = (if b then Num 1 else Num 0)"
| "ToNumber s2n (JNum x) = Num x"
| "ToNumber s2n (JStr s) = s2n s"
| "ToNumber s2n (JObject s) = s2n s"

definition isNaN :: "(string \<Rightarrow> jsnum) \<Rightarrow> jsval \<Rightarrow> bool" where
  "isNaN s2n v = (ToNumber s2n v = NaN)"

text \<open>The comparisons \<open>a <= b\<close>, \<open>a > b\<close> and \<open>a >= b\<close> of numbers: false when a side
  is \<open>NaN\<close>.\<close>

fun js_le :: "jsnum \<Rightarrow> jsnum \<Rightarrow> bool" where
  "js_le NaN _ = False"
| "js_le _ NaN = False"
| "js_le (Num x) (Num y) = (x \<le> y)"
| "js_le NegInf _ = True"
| "js_le _ PosInf = True"
| "js_le PosInf _ = False"
| "js_le _ NegInf = False"

fun js_gt :: "jsnum \<Rightarrow> jsnum \<Rightarrow> bool" where
  "js_gt NaN _ = False"
| "js_gt _ NaN = False"
| "js_gt (Num x) (Num y) = (y < x)"
| "js_gt NegInf _ = False"
| "js_gt _ PosInf = False"
| "js_gt PosInf _ = True"
| "js_gt _ NegInf = True"

definition js_ge :: "jsnum \<Rightarrow> jsnum \<Rightarrow> bool" where
  "js_ge a b = js_le b a"

text \<open>\<open>s.toUpperCase()\<close>, \<open>s.toLowerCase()\<close> and \<open>s.trim()\<close> on ASCII strings.\<close>

definition toUpperCase :: "string \<Rightarrow> string" where
  "toUpperCase s =
     map (\<lambda>c. if 97 \<le> (of_char c :: nat) \<and> (of_char c :: nat) \<le> 122
               then char_of ((of_char c :: nat) - 32) else c) s"

definition toLowerCase :: "string \<Rightarrow> string" where
  "toLowerCase s =
     map (\<lambda>c. if 65 \<le> (of_char c :: nat) \<and> (of_char c :: nat) \<le> 90
               then char_of ((of_char c :: nat) + 32) else c) s"

definition is_space :: "char \<Rightarrow> bool" where
  "is_space c = ((of_char c :: nat) \<in> {9, 10, 11, 12, 13, 32})"

definition trim :: "string \<Rightarrow> string" where
  "trim s = rev (dropWhile is_space (rev (dropWhile is_space s)))"

text \<open>A method call \<open>v.toUpperCase()\<close> on a body field: a string has the method, on any
  other truthy value the call throws a \<open>TypeError\<close>.\<close>

fun call_string_method :: "(string \<Rightarrow> string) \<Rightarrow> jsval \<Rightarrow> js_error + string" where
  "call_string_method f (JStr s) = Inr (f s)"
| "call_string_method f _ = Inl TypeError"

subsection \<open>Requests and documents\<close>

record loan_request =
  req_customerId :: string
  req_amount :: rat
  req_interestRate :: rat
  req_term :: int

record payment_request =
  req_loanId :: string
  body_amount :: jsval
  body_paymentType :: jsval
  body_paymentMethod :: jsval
  body_reference :: jsval

datatype loan_status = ACTIVE | PAID_OFF

datatype payment_status = pending | completed | failed

record customer =
  customerId :: string
  name :: string
  email :: string
  phone :: string
  address :: string

record payment =
  paymentId :: string
  pay_loanId :: string
  pay_amount :: rat
  paymentType :: string
  paymentMethod :: string
  pay_status :: payment_status
  reference :: "string option"

record loan =
  loanId :: string
  loan_customerId :: string
  amount :: rat
  interestRate :: rat
  "term" :: int
  status :: loan_status
  monthlyPayment :: rat
  totalAmount :: rat
  remainingBalance :: rat

record db =
  customers :: "customer list"
  loans :: "loan list"
  payments :: "payment list"

subsection \<open>Saving documents: the schema validators\<close>

text \<open>The \<open>min\<close> and \<open>max\<close> validators of a Number path compare with \<open>>=\<close> and
  \<open><=\<close>. A \<open>NaN\<close> fails the cast of the path, which \<open>save()\<close> reports as a validation
  error of that path as well; it fails both comparisons here.\<close>

definition min_ok :: "rat \<Rightarrow> jsnum \<Rightarrow> bool" where
  "min_ok m v = js_ge v (Num m)"

definition max_ok :: "rat \<Rightarrow> jsnum \<Rightarrow> bool" where
  "max_ok m v = js_le v (Num m)"

text \<open>The paths of \<open>loanSchema\<close> that fail on the document built by the loan handler
  (\<open>remainingBalance\<close> is set to \<open>totalAmount\<close> there).\<close>

definition Loan_invalid_paths :: "loan_request \<Rightarrow> jsnum \<Rightarrow> jsnum \<Rightarrow> string list" where
  "Loan_invalid_paths req mp ta =
     (if req_customerId req \<noteq> [] then [] else [''customerId'']) @
     (if min_ok 1000 (Num (req_amount req)) \<and> max_ok 100000000 (Num (req_amount req))
      then [] else [''amount'']) @
     (if min_ok (1 / 10) (Num (req_interestRate req)) \<and> max_ok 50 (Num (req_interestRate req))
      then [] else [''interestRate'']) @
     (if min_ok 1 (Num (of_int (req_term req))) \<and> max_ok 360 (Num (of_int (req_term req)))
      then [] else [''term'']) @
     (if min_ok 1 mp then [] else [''monthlyPayment'']) @
     (if min_ok 1 ta then [] else [''totalAmount'']) @
     (if min_ok 0 ta then [] else [''remainingBalance''])"

text \<open>\<open>await loan.save()\<close> of a new document: validation, then the insert under the
  unique index on \<open>loanId\<close>. The identifier \<open>newId\<close> is the one that the schema default
  generated. A stored document holds finite numbers; the last case, an infinite derived
  value on a document that passed validation, does not occur in the handler (lemma
  \<open>createLoan_finite\<close> below).\<close>

definition Loan_save :: "string \<Rightarrow> db \<Rightarrow> loan_request \<Rightarrow> jsnum \<Rightarrow> jsnum \<Rightarrow> js_error + loan" where
  "Loan_save newId d req mp ta =
     (if Loan_invalid_paths req mp ta \<noteq> [] then Inl (ValidationError (Loan_invalid_paths req mp ta))
      else if newId \<in> set (map loanId (loans d)) then Inl DuplicateKey
      else case (mp, ta) of
        (Num m, Num t) \<Rightarrow>
          Inr \<lparr>loanId = newId, loan_customerId = req_customerId req, amount = req_amount req,
               interestRate = req_interestRate req, term = req_term req, status = ACTIVE,
               monthlyPayment = m, totalAmount = t, remainingBalance = t\<rparr>
      | _ \<Rightarrow> Inl (Error ''non-finite number''))"

text \<open>The document that \<open>new Payment({...})\<close> is given: \<open>Number(amount)\<close>,
  \<open>paymentType.toUpperCase()\<close>, \<open>paymentMethod.toLowerCase()\<close> and
  \<open>reference ? reference.trim() : undefined\<close>. A method call on a value that is not a
  string throws.\<close>

definition new_Payment ::
  "(string \<Rightarrow> jsnum) \<Rightarrow> payment_request \<Rightarrow> js_error + (jsnum \<times> string \<times> string \<times> string option)" where
  "new_Payment s2n req =
     (case call_string_method toUpperCase (body_paymentType req) of
        Inl e \<Rightarrow> Inl e
      | Inr pt \<Rightarrow>
          (case call_string_method toLowerCase (body_paymentMethod req) of
             Inl e \<Rightarrow> Inl e
           | Inr pm \<Rightarrow>
               if truthy (body_reference req)
               then (case call_string_method trim (body_reference req) of
                       Inl e \<Rightarrow> Inl e
                     | Inr r \<Rightarrow> Inr (ToNumber s2n (body_amount req), pt, pm, Some r))
               else Inr (ToNumber s2n (body_amount req), pt, pm, None)))"

text \<open>The \<open>enum\<close> lists of \<open>paymentSchema\<close>.\<close>

definition paymentType_enum :: "string list" where
  "paymentType_enum = [''EMI'', ''LUMP_SUM'']"

definition paymentMethod_enum :: "string list" where
  "paymentMethod_enum = [''cash'', ''check'', ''bank_transfer'', ''credit_card'', ''debit_card'']"

definition Payment_invalid_paths ::
  "string \<Rightarrow> jsnum \<times> string \<times> string \<times> string option \<Rightarrow> string list" where
  "Payment_invalid_paths lid cand =
     (case cand of (a, pt, pm, r) \<Rightarrow>
        (if lid \<noteq> [] then [] else [''loanId'']) @
        (if min_ok 1 a then [] else [''amount'']) @
        (if pt \<in> set paymentType_enum then [] else [''paymentType'']) @
        (if pm \<in> set paymentMethod_enum then [] else [''paymentMethod'']) @
        (case r of None \<Rightarrow> [] | Some s \<Rightarrow> if length s \<le> 100 then [] else [''reference'']))"

text \<open>\<open>await payment.save()\<close>: validation, then the insert under the unique index on
  \<open>paymentId\<close>. The last case does not occur in the handler, which has compared the
  amount with the finite balance before (lemma \<open>createPayment_finite\<close> below).\<close>

definition Payment_save ::
  "string \<Rightarrow> db \<Rightarrow> string \<Rightarrow> jsnum \<times> string \<times> string \<times> string option \<Rightarrow> js_error + payment" where
  "Payment_save newId d lid cand =
     (if Payment_invalid_paths lid cand \<noteq> []
      then Inl (ValidationError (Payment_invalid_paths lid cand))
      else if newId \<in> set (map paymentId (payments d)) then Inl DuplicateKey
      else case cand of
        (Num a, pt, pm, r) \<Rightarrow>
          Inr \<lparr>paymentId = newId, pay_loanId = lid, pay_amount = a, paymentType = pt,
               paymentMethod = pm, pay_status = completed, reference = r\<rparr>
      | _ \<Rightarrow> Inl (Error ''non-finite number''))"

text \<open>\<open>await loan.save()\<close> of a document that \<open>Loan.findOne({ loanId })\<close> returned: the
  first document with that \<open>loanId\<close> is replaced. The payment handler writes a status of
  the enumeration and a balance that is not negative, so the validators of the two
  modified paths pass.\<close>

fun save_loan :: "loan \<Rightarrow> loan list \<Rightarrow> loan list" where
  "save_loan l' [] = []"
| "save_loan l' (l # ls) = (if loanId l = loanId l' then l' # ls else l # save_loan l' ls)"

subsection \<open>The handlers\<close>

text \<open>
  \<open>POST /api/v1/loans\<close>. The body carries numbers, as the loan form sends them
  (\<open>parseFloat\<close> of amount and rate, \<open>parseInt\<close> of the term): \<open>!amount\<close> is \<open>amount = 0\<close>
  and the \<open>isNaN\<close> check never fires. The rupee sign of the messages is left out.
\<close>

definition createLoan :: "string \<Rightarrow> db \<Rightarrow> loan_request \<Rightarrow> loan response \<times> db" where
  "createLoan newId d req =
     (if req_customerId req = [] \<or> req_amount req = 0 \<or> req_interestRate req = 0 \<or> req_term req = 0
      then (Failure 400 ''All fields (customerId, amount, interestRate, term) are required'' None, d)
      else if req_amount req < 1000
      then (Failure 400 ''Minimum loan amount is 1,000'' None, d)
      else case find (\<lambda>c. customerId c = req_customerId req) (customers d) of
        None \<Rightarrow> (Failure 404 ''Customer not found'' None, d)
      | Some c \<Rightarrow>
          (case calculateMonthlyPayment (req_amount req) (req_interestRate req) (req_term req) of
             Inl e \<Rightarrow> (Failure 400 ''Failed to create loan'' (Some e), d)
           | Inr mp \<Rightarrow>
               let ta = js_round2 (js_mul mp (Num (of_int (req_term req)))) in
               (case Loan_save newId d req mp ta of
                  Inl e \<Rightarrow> (Failure 400 ''Failed to create loan'' (Some e), d)
                | Inr l \<Rightarrow> (Success l, d\<lparr>loans := loans d @ [l]\<rparr>))))"

text \<open>
  \<open>POST /api/v1/loans/:loanId/payments\<close>. The success body holds the payment and the
  \<open>loanId\<close>, \<open>remainingBalance\<close> and \<open>status\<close> of the loan. The message of the overpayment
  check interpolates the two amounts in the source. The new balance is computed from
  \<open>Number(amount)\<close> again, which is the amount of the payment just saved.
\<close>

definition createPayment ::
  "(string \<Rightarrow> jsnum) \<Rightarrow> string \<Rightarrow> db \<Rightarrow> payment_request
     \<Rightarrow> (payment \<times> string \<times> rat \<times> loan_status) response \<times> db" where
  "createPayment s2n newId d req =
     (if req_loanId req = [] \<or> \<not> truthy (body_amount req) \<or> \<not> truthy (body_paymentType req)
         \<or> \<not> truthy (body_paymentMethod req)
      then (Failure 400 ''Loan ID, amount, payment type, and payment method are required'' None, d)
      else if isNaN s2n (body_amount req) \<or> js_le (ToNumber s2n (body_amount req)) (Num 0)
      then (Failure 400 ''Payment amount must be a positive number'' None, d)
      else case find (\<lambda>l. loanId l = req_loanId req) (loans d) of
        None \<Rightarrow> (Failure 404 ''Loan not found'' None, d)
      | Some loan \<Rightarrow>
          if status loan = PAID_OFF
          then (Failure 400 ''Cannot add payment to a loan that is already paid off'' None, d)
          else if js_gt (ToNumber s2n (body_amount req)) (Num (remainingBalance loan))
          then (Failure 400 ''Payment amount exceeds remaining balance'' None, d)
          else
            (case new_Payment s2n req of
               Inl e \<Rightarrow> (Failure 400 ''Failed to record payment'' (Some e), d)
             | Inr cand \<Rightarrow>
                 (case Payment_save newId d (req_loanId req) cand of
                    Inl e \<Rightarrow> (Failure 400 ''Failed to record payment'' (Some e), d)
                  | Inr p \<Rightarrow>
                      let newBalance = round2 (remainingBalance loan - pay_amount p);
                          loan1 = loan\<lparr>remainingBalance := newBalance\<rparr>;
                          loan2 = (if newBalance \<le> 0
                                   then loan1\<lparr>status := PAID_OFF, remainingBalance := 0\<rparr>
                                   else loan1)
                      in (Success (p, loanId loan2, remainingBalance loan2, status loan2),
                          d\<lparr>payments := payments d @ [p],
                            loans := save_loan loan2 (loans d)\<rparr>))))"

text \<open>
  \<open>GET /api/v1/dashboard\<close>, its \<open>stats\<close> object. An aggregation
  \<open>[{ $group: { _id: null, total: { $sum: '$amount' } } }]\<close> yields one group when the
  collection (after \<open>$match\<close>) has a document and none otherwise; the handler reads
  \<open>result[0]?.total || 0\<close>. The lists of the five most recent loans and payments, which
  the response carries beside the statistics, are left out with the timestamps.
\<close>

definition group_sum :: "rat list \<Rightarrow> rat list" where
  "group_sum xs = (if xs = [] then [] else [foldl (+) 0 xs])"

definition first_total_or_0 :: "rat list \<Rightarrow> rat" where
  "first_total_or_0 gs = (case gs of [] \<Rightarrow> 0 | g # _ \<Rightarrow> if g = 0 then 0 else g)"

definition countDocuments :: "('a \<Rightarrow> bool) \<Rightarrow> 'a list \<Rightarrow> nat" where
  "countDocuments P xs = length (filter P xs)"

record stats =
  totalCustomers :: nat
  totalLoans :: nat
  activeLoans :: nat
  paidOffLoans :: nat
  totalLoanAmount :: rat
  totalCollected :: rat

definition dashboard :: "db \<Rightarrow> stats" where
  "dashboard d =
     \<lparr>totalCustomers = countDocuments (\<lambda>_. True) (customers d),
      totalLoans = countDocuments (\<lambda>_. True) (loans d),
      activeLoans = countDocuments (\<lambda>l. status l = ACTIVE) (loans d),
      paidOffLoans = countDocuments (\<lambda>l. status l = PAID_OFF) (loans d),
      totalLoanAmount = first_total_or_0 (group_sum (map amount (loans d))),
      totalCollected =
        first_total_or_0
          (group_sum (map pay_amount (filter (\<lambda>p. pay_status p = completed) (payments d))))\<rparr>"

subsection \<open>Sequences of requests\<close>

datatype api_call =
    POST_loans string loan_request
  | POST_payments string payment_request

fun handle :: "(string \<Rightarrow> jsnum) \<Rightarrow> db \<Rightarrow> api_call \<Rightarrow> db" where
  "handle s2n d (POST_loans newId req) = snd (createLoan newId d req)"
| "handle s2n d (POST_payments newId req) = snd (createPayment s2n newId d req)"

definition run :: "(string \<Rightarrow> jsnum) \<Rightarrow> db \<Rightarrow> api_call list \<Rightarrow> db" where
  "run s2n d calls = foldl (handle s2n) d calls"

subsection \<open>Predicates of the specification\<close>

text \<open>The invariant of a loan in the ledger: the balance lies between zero and the total
  amount, and the loan is \<open>PAID_OFF\<close> exactly when the balance is zero.\<close>

definition ledger_invariant :: "loan \<Rightarrow> bool" where
  "ledger_invariant l \<longleftrightarrow>
     0 \<le> remainingBalance l \<and> remainingBalance l \<le> totalAmount l \<and>
     (status l = PAID_OFF \<longleftrightarrow> remainingBalance l = 0)"

text \<open>The loan after the handler has applied an accepted amount \<open>a\<close>, and the relation
  between a stored loan before and after one request.\<close>

definition payment_applied :: "loan \<Rightarrow> rat \<Rightarrow> loan" where
  "payment_applied l a =
     (if round2 (remainingBalance l - a) \<le> 0
      then l\<lparr>status := PAID_OFF, remainingBalance := 0\<rparr>
      else l\<lparr>remainingBalance := round2 (remainingBalance l - a)\<rparr>)"

definition ledger_step :: "loan \<Rightarrow> loan \<Rightarrow> bool" where
  "ledger_step l l' \<longleftrightarrow>
     l' = l \<or>
     (status l = ACTIVE \<and> (\<exists>a. 1 \<le> a \<and> a \<le> remainingBalance l \<and> l' = payment_applied l a))"

text \<open>A value on the grid of two decimals is a whole number of hundredths; \<open>y\<close> is
  \<open>x\<close> rounded to two decimals when it is on the grid and at most half a hundredth
  away from \<open>x\<close>.\<close>

definition on_cent_grid :: "rat \<Rightarrow> bool" where
  "on_cent_grid y \<longleftrightarrow> of_int \<lfloor>y * 100\<rfloor> = y * 100"


definition loan_on_grid :: "loan \<Rightarrow> bool" where
  "loan_on_grid l \<longleftrightarrow>
     on_cent_grid (monthlyPayment l) \<and> on_cent_grid (totalAmount l) \<and>
     on_cent_grid (remainingBalance l)"

text \<open>The fixed-payment annuity formula of the specification, for a principal \<open>P\<close>, a
  monthly rate \<open>m\<close> and \<open>n\<close> months.\<close>

definition annuity :: "rat \<Rightarrow> rat \<Rightarrow> nat \<Rightarrow> rat" where
  "annuity P m n = P * m * (1 + m) ^ n / ((1 + m) ^ n - 1)"

text \<open>The fields of a payment request other than the amount are well formed: the loan
  id is present, type and method are strings that the schema's enumerations accept after
  the case conversion, and the reference is absent or a string of at most 100 characters
  after trimming.\<close>

definition well_formed_fields :: "payment_request \<Rightarrow> bool" where
  "well_formed_fields req \<longleftrightarrow>
     req_loanId req \<noteq> [] \<and>
     (case body_paymentType req of
        JStr t \<Rightarrow> toUpperCase t \<in> set paymentType_enum | _ \<Rightarrow> False) \<and>
     (case body_paymentMethod req of
        JStr m \<Rightarrow> toLowerCase m \<in> set paymentMethod_enum | _ \<Rightarrow> False) \<and>
     (case body_reference req of
        JStr r \<Rightarrow> length (trim r) \<le> 100 | v \<Rightarrow> \<not> truthy v)"

subsection \<open>Example data\<close>

definition example_customer :: customer where
  "example_customer =
     \<lparr>customerId = ''CUST-1'', name = ''Raj Patel'', email = ''raj.patel@example.com'',
      phone = ''+91-9876543210'', address = ''Mumbai''\<rparr>"

definition example_loan_request :: loan_request where
  "example_loan_request =
     \<lparr>req_customerId = ''CUST-1'', req_amount = 1000, req_interestRate = 12, req_term = 12\<rparr>"

text \<open>The loan that \<open>example_loan_request\<close> creates: twelve payments of 88.85.\<close>

definition example_loan :: loan where
  "example_loan =
     \<lparr>loanId = ''LOAN-1'', loan_customerId = ''CUST-1'', amount = 1000, interestRate = 12,
      term = 12, status = ACTIVE, monthlyPayment = 1777 / 20, totalAmount = 5331 / 5,
      remainingBalance = 5331 / 5\<rparr>"

definition example_db :: db where
  "example_db = \<lparr>customers = [example_customer], loans = [example_loan], payments = []\<rparr>"

definition example_payment :: "jsval \<Rightarrow> payment_request" where
  "example_payment a =
     \<lparr>req_loanId = ''LOAN-1'', body_amount = a, body_paymentType = JStr ''emi'',
      body_paymentMethod = JStr ''Cash'', body_reference = JUndefined\<rparr>"

text \<open>The request for the first loan of the seed data: 500000 at 8.5 percent over 60
  months.\<close>

definition seed_loan_request :: loan_request where
  "seed_loan_request =
     \<lparr>req_customerId = ''CUST-1'', req_amount = 500000, req_interestRate = 17 / 2, req_term = 60\<rparr>"

text \<open>A string conversion for the examples, which send numbers only.\<close>

definition no_strings :: "string \<Rightarrow> jsnum" where
  "no_strings s = NaN"

section \<open>Properties\<close>

subsection \<open>Rounding\<close>

lemma Math_round_bounds:
  "of_int (Math_round x) \<le> x + 1 / 2" "x - 1 / 2 < of_int (Math_round x)"
  unfolding Math_round_def by linarith+

lemma round2_upper: "round2 x \<le> x + 1 / 200"
  using Math_round_bounds(1) [of "x * 100"] by (simp add: round2_def field_simps)

lemma round2_lower: "x - 1 / 200 < round2 x"
  using Math_round_bounds(2) [of "x * 100"] by (simp add: round2_def field_simps)

lemma round2_nonneg: "0 \<le> x \<Longrightarrow> 0 \<le> round2 x"
  unfolding round2_def Math_round_def by simp

lemma js_round2_Num: "js_round2 (Num x) = Num (round2 x)"
  by (simp add: js_round2_def round2_def)

lemma on_cent_grid_round2: "on_cent_grid (round2 x)"
  by (simp add: on_cent_grid_def round2_def)

lemma on_cent_grid_0: "on_cent_grid 0"
  by (simp add: on_cent_grid_def)


subsection \<open>The payment handler, case by case\<close>

lemma status_cases: "status l \<noteq> PAID_OFF \<longleftrightarrow> status l = ACTIVE"
  by (cases "status l") auto

lemma Payment_save_Inr:
  assumes "Payment_save newId d lid cand = Inr p"
  shows "\<exists>a. fst cand = Num a \<and> 1 \<le> a \<and> pay_amount p = a \<and> pay_status p = completed
       \<and> pay_loanId p = lid \<and> paymentId p = newId \<and> newId \<notin> set (map paymentId (payments d))"
  using assms
  by (auto simp: Payment_save_def Payment_invalid_paths_def min_ok_def js_ge_def
      split: if_splits prod.splits jsnum.splits)

lemma new_Payment_Inr:
  assumes "new_Payment s2n req = Inr cand"
  shows "fst cand = ToNumber s2n (body_amount req)"
  using assms
  by (auto simp: new_Payment_def split: sum.splits if_splits)

lemma createPayment_Failure:
  assumes "is_failure (fst (createPayment s2n newId d req))"
  shows "snd (createPayment s2n newId d req) = d"
  using assms
  by (auto simp: createPayment_def Let_def split: option.splits sum.splits if_splits)

lemma createPayment_Success:
  assumes "createPayment s2n newId d req = (Success body, d')"
  shows "\<exists>loan a p. find (\<lambda>l. loanId l = req_loanId req) (loans d) = Some loan
      \<and> status loan = ACTIVE
      \<and> ToNumber s2n (body_amount req) = Num a \<and> 1 \<le> a \<and> a \<le> remainingBalance loan
      \<and> pay_amount p = a \<and> pay_status p = completed
      \<and> body = (p, loanId loan, remainingBalance (payment_applied loan a),
                 status (payment_applied loan a))
      \<and> d' = d\<lparr>payments := payments d @ [p],
               loans := save_loan (payment_applied loan a) (loans d)\<rparr>"
proof -
  from assms obtain loan where f: "find (\<lambda>l. loanId l = req_loanId req) (loans d) = Some loan"
    by (auto simp: createPayment_def Let_def split: option.splits sum.splits if_splits)
  from assms f have st: "status loan = ACTIVE"
    by (auto simp: createPayment_def Let_def status_cases [symmetric]
        split: option.splits sum.splits if_splits)
  from assms f obtain cand p where c: "new_Payment s2n req = Inr cand"
    and p: "Payment_save newId d (req_loanId req) cand = Inr p"
    by (auto simp: createPayment_def Let_def split: option.splits sum.splits if_splits)
  from Payment_save_Inr [OF p] new_Payment_Inr [OF c]
  obtain a where a: "ToNumber s2n (body_amount req) = Num a" "1 \<le> a" "pay_amount p = a"
    "pay_status p = completed"
    by auto
  from assms f a have le: "a \<le> remainingBalance loan"
    by (auto simp: createPayment_def Let_def split: option.splits sum.splits if_splits)
  from assms f c p a
  have "body = (p, loanId loan, remainingBalance (payment_applied loan a),
                 status (payment_applied loan a))
      \<and> d' = d\<lparr>payments := payments d @ [p],
               loans := save_loan (payment_applied loan a) (loans d)\<rparr>"
    by (auto simp: createPayment_def Let_def payment_applied_def
        split: option.splits sum.splits if_splits)
  with f st a le show ?thesis by blast
qed

subsection \<open>One request, seen from a stored loan\<close>

lemma length_save_loan: "length (save_loan l' ls) = length ls"
  by (induction ls) auto

lemma save_loan_nth:
  assumes "find (\<lambda>l. loanId l = k) ls = Some l0" "loanId l' = k" "i < length ls"
  shows "save_loan l' ls ! i = ls ! i \<or> (ls ! i = l0 \<and> save_loan l' ls ! i = l')"
  using assms
proof (induction ls arbitrary: i)
  case Nil
  then show ?case by simp
next
  case (Cons x xs)
  then show ?case by (cases i) (auto split: if_splits)
qed

lemma loanId_payment_applied: "loanId (payment_applied l a) = loanId l"
  by (simp add: payment_applied_def)

lemma find_loanId: "find (\<lambda>l. loanId l = k) ls = Some l0 \<Longrightarrow> loanId l0 = k"
  by (induction ls) (auto split: if_splits)

lemma createPayment_loans:
  "length (loans (snd (createPayment s2n newId d req))) = length (loans d) \<and>
   (\<forall>i < length (loans d).
      ledger_step (loans d ! i) (loans (snd (createPayment s2n newId d req)) ! i))"
proof (cases "createPayment s2n newId d req")
  case (Pair r d')
  show ?thesis
  proof (cases r)
    case (Failure c m e)
    with Pair createPayment_Failure [of s2n newId d req] show ?thesis
      by (simp add: ledger_step_def)
  next
    case (Success body)
    with Pair createPayment_Success [of s2n newId d req body d']
    obtain loan a p where f: "find (\<lambda>l. loanId l = req_loanId req) (loans d) = Some loan"
      and st: "status loan = ACTIVE" and a: "1 \<le> a" "a \<le> remainingBalance loan"
      and d': "d' = d\<lparr>payments := payments d @ [p],
                      loans := save_loan (payment_applied loan a) (loans d)\<rparr>"
      by blast
    have id: "loanId (payment_applied loan a) = req_loanId req"
      using find_loanId [OF f] by (simp add: loanId_payment_applied)
    have "ledger_step (loans d ! i) (save_loan (payment_applied loan a) (loans d) ! i)"
      if "i < length (loans d)" for i
      using save_loan_nth [OF f id that] st a unfolding ledger_step_def by auto
    with Pair d' show ?thesis by (simp add: length_save_loan)
  qed
qed

lemma createLoan_loans:
  "loans (snd (createLoan newId d req)) = loans d \<or>
   (\<exists>l. fst (createLoan newId d req) = Success l \<and>
        loans (snd (createLoan newId d req)) = loans d @ [l])"
  by (auto simp: createLoan_def Let_def split: option.splits sum.splits)

lemma ledger_step_refl: "ledger_step l l"
  by (simp add: ledger_step_def)

lemma handle_loans:
  "length (loans d) \<le> length (loans (handle s2n d c)) \<and>
   (\<forall>i < length (loans d). ledger_step (loans d ! i) (loans (handle s2n d c) ! i))"
proof (cases c)
  case (POST_loans newId req)
  with createLoan_loans [of newId d req] show ?thesis
    by (auto simp: ledger_step_refl nth_append)
next
  case (POST_payments newId req)
  with createPayment_loans [of s2n newId d req] show ?thesis by simp
qed

lemma ledger_step_invariant:
  assumes "ledger_step l l'" "ledger_invariant l"
  shows "ledger_invariant l' \<and> remainingBalance l' \<le> remainingBalance l
     \<and> totalAmount l' = totalAmount l"
proof (cases "l' = l")
  case True
  with assms show ?thesis by simp
next
  case False
  with assms obtain a where st: "status l = ACTIVE" and a: "1 \<le> a" "a \<le> remainingBalance l"
    and l': "l' = payment_applied l a"
    unfolding ledger_step_def by blast
  have nn: "0 \<le> round2 (remainingBalance l - a)"
    using a by (simp add: round2_nonneg)
  have up: "round2 (remainingBalance l - a) \<le> remainingBalance l"
    using round2_upper [of "remainingBalance l - a"] a by linarith
  from assms(2) nn up st show ?thesis
    unfolding l' payment_applied_def ledger_invariant_def by auto
qed

lemma run_snoc: "run s2n d (calls @ [c]) = handle s2n (run s2n d calls) c"
  by (simp add: run_def)

lemma run_loans:
  assumes "i < length (loans d)" "ledger_invariant (loans d ! i)"
  shows "i < length (loans (run s2n d calls)) \<and> ledger_invariant (loans (run s2n d calls) ! i)
     \<and> totalAmount (loans (run s2n d calls) ! i) = totalAmount (loans d ! i)
     \<and> remainingBalance (loans (run s2n d calls) ! i) \<le> remainingBalance (loans d ! i)"
proof (induction calls rule: rev_induct)
  case Nil
  with assms show ?case by (simp add: run_def)
next
  case (snoc c calls)
  let ?d = "run s2n d calls"
  from snoc have i: "i < length (loans ?d)" and inv: "ledger_invariant (loans ?d ! i)"
    by simp_all
  from handle_loans [of ?d s2n c] i
  have len: "i < length (loans (handle s2n ?d c))"
    and st: "ledger_step (loans ?d ! i) (loans (handle s2n ?d c) ! i)" by auto
  from ledger_step_invariant [OF st inv] snoc len show ?case
    by (simp add: run_snoc)
qed

subsection \<open>A loan that is paid off stays paid off\<close>

lemma find_save_loan_same:
  assumes "find (\<lambda>l. loanId l = k) ls = Some l0" "loanId l' = k"
  shows "find (\<lambda>l. loanId l = k) (save_loan l' ls) = Some l'"
  using assms by (induction ls) (auto split: if_splits)

lemma find_save_loan_other:
  assumes "loanId l' \<noteq> k"
  shows "find (\<lambda>l. loanId l = k) (save_loan l' ls) = find (\<lambda>l. loanId l = k) ls"
  using assms by (induction ls) auto

lemma find_append_Some: "find P xs = Some x \<Longrightarrow> find P (xs @ ys) = Some x"
  by (induction xs) (auto split: if_splits)

lemma handle_paid_off:
  assumes "find (\<lambda>l. loanId l = k) (loans d) = Some l" "status l = PAID_OFF"
  shows "find (\<lambda>l. loanId l = k) (loans (handle s2n d c)) = Some l"
proof (cases c)
  case (POST_loans newId req)
  with createLoan_loans [of newId d req] assms(1) show ?thesis
    by (auto simp: find_append_Some)
next
  case (POST_payments newId req)
  show ?thesis
  proof (cases "createPayment s2n newId d req")
    case (Pair r d')
    show ?thesis
    proof (cases r)
      case (Failure c m e)
      with Pair createPayment_Failure [of s2n newId d req] POST_payments assms(1)
      show ?thesis by simp
    next
      case (Success body)
      with Pair createPayment_Success [of s2n newId d req body d']
      obtain loan a p where f: "find (\<lambda>l. loanId l = req_loanId req) (loans d) = Some loan"
        and st: "status loan = ACTIVE"
        and d': "d' = d\<lparr>payments := payments d @ [p],
                      loans := save_loan (payment_applied loan a) (loans d)\<rparr>"
        by blast
      have "req_loanId req \<noteq> k"
        using f st assms by auto
      then have "loanId (payment_applied loan a) \<noteq> k"
        using find_loanId [OF f] by (simp add: loanId_payment_applied)
      from find_save_loan_other [OF this, of "loans d"] assms(1) d' Pair POST_payments
      show ?thesis by simp
    qed
  qed
qed

lemma run_paid_off:
  assumes "find (\<lambda>l. loanId l = k) (loans d) = Some l" "status l = PAID_OFF"
  shows "find (\<lambda>l. loanId l = k) (loans (run s2n d calls)) = Some l"
proof (induction calls rule: rev_induct)
  case Nil
  with assms show ?case by (simp add: run_def)
next
  case (snoc c calls)
  from handle_paid_off [OF snoc assms(2)] show ?case by (simp add: run_snoc)
qed

lemma createPayment_paid_off:
  assumes "find (\<lambda>l. loanId l = req_loanId req) (loans d) = Some l" "status l = PAID_OFF"
  shows "snd (createPayment s2n newId d req) = d"
    and "is_failure (fst (createPayment s2n newId d req))"
    and "req_loanId req \<noteq> [] \<Longrightarrow> truthy (body_amount req) \<Longrightarrow> truthy (body_paymentType req)
       \<Longrightarrow> truthy (body_paymentMethod req) \<Longrightarrow> \<not> isNaN s2n (body_amount req)
       \<Longrightarrow> \<not> js_le (ToNumber s2n (body_amount req)) (Num 0)
       \<Longrightarrow> fst (createPayment s2n newId d req)
           = Failure 400 ''Cannot add payment to a loan that is already paid off'' None"
  using assms by (auto simp: createPayment_def)

subsection \<open>Well-formed payment requests\<close>

lemma well_formed_new_Payment:
  assumes "well_formed_fields req"
  shows "\<exists>pt pm r. new_Payment s2n req = Inr (ToNumber s2n (body_amount req), pt, pm, r)
     \<and> pt \<in> set paymentType_enum
     \<and> pm \<in> set paymentMethod_enum
     \<and> (case r of None \<Rightarrow> True | Some s \<Rightarrow> length s \<le> 100)"
proof -
  from assms obtain t m where t: "body_paymentType req = JStr t"
      "toUpperCase t \<in> set paymentType_enum"
    and m: "body_paymentMethod req = JStr m"
      "toLowerCase m \<in> set paymentMethod_enum"
    unfolding well_formed_fields_def by (auto split: jsval.splits)
  from assms have r: "(\<exists>r. body_reference req = JStr r \<and> length (trim r) \<le> 100)
      \<or> \<not> truthy (body_reference req)"
    unfolding well_formed_fields_def by (auto split: jsval.splits)
  from r show ?thesis
  proof
    assume "\<exists>r. body_reference req = JStr r \<and> length (trim r) \<le> 100"
    then obtain r where "body_reference req = JStr r" "length (trim r) \<le> 100" by blast
    with t m show ?thesis
      by (cases "r = []") (simp_all add: new_Payment_def)
  next
    assume "\<not> truthy (body_reference req)"
    with t m show ?thesis by (simp add: new_Payment_def)
  qed
qed

lemma well_formed_truthy:
  assumes "well_formed_fields req"
  shows "req_loanId req \<noteq> [] \<and> truthy (body_paymentType req) \<and> truthy (body_paymentMethod req)"
proof -
  have "toUpperCase [] \<notin> set paymentType_enum" "toLowerCase [] \<notin> set paymentMethod_enum"
    by (simp_all add: toUpperCase_def toLowerCase_def paymentType_enum_def paymentMethod_enum_def)
  with assms show ?thesis
    unfolding well_formed_fields_def by (auto split: jsval.splits)
qed

lemma round2_0: "round2 0 = 0"
  by code_simp

lemma payoff_accepted:
  assumes f: "find (\<lambda>l. loanId l = req_loanId req) (loans d) = Some loan"
    and st: "status loan = ACTIVE"
    and rb: "1 \<le> remainingBalance loan"
    and tr: "truthy (body_amount req)"
    and am: "ToNumber s2n (body_amount req) = Num (remainingBalance loan)"
    and wf: "well_formed_fields req"
    and fresh: "newId \<notin> set (map paymentId (payments d))"
  shows "\<exists>p. createPayment s2n newId d req =
           (Success (p, req_loanId req, 0, PAID_OFF),
            d\<lparr>payments := payments d @ [p],
              loans := save_loan (loan\<lparr>status := PAID_OFF, remainingBalance := 0\<rparr>) (loans d)\<rparr>)"
proof -
  from well_formed_new_Payment [OF wf, of s2n] am
  obtain pt pm r where c: "new_Payment s2n req = Inr (Num (remainingBalance loan), pt, pm, r)"
    and ok: "pt \<in> set paymentType_enum" "pm \<in> set paymentMethod_enum"
      "case r of None \<Rightarrow> True | Some s \<Rightarrow> length s \<le> 100"
    by auto
  note t = well_formed_truthy [OF wf]
  have m1: "min_ok 1 (Num (remainingBalance loan))"
    using rb by (simp add: min_ok_def js_ge_def)
  have r': "(case r of None \<Rightarrow> [] | Some s \<Rightarrow> if length s \<le> 100 then [] else [''reference'']) = []"
    using ok(3) by (cases r) simp_all
  have paths: "Payment_invalid_paths (req_loanId req) (Num (remainingBalance loan), pt, pm, r) = []"
    using ok(1,2) m1 r' t by (simp add: Payment_invalid_paths_def)
  define p where "p = \<lparr>paymentId = newId, pay_loanId = req_loanId req,
      pay_amount = remainingBalance loan, paymentType = pt, paymentMethod = pm,
      pay_status = completed, reference = r\<rparr>"
  have s: "Payment_save newId d (req_loanId req) (Num (remainingBalance loan), pt, pm, r) = Inr p"
    using paths fresh by (simp add: Payment_save_def p_def)
  have z: "round2 (remainingBalance loan - pay_amount p) = 0"
    by (simp add: p_def round2_0)
  have nn: "\<not> isNaN s2n (body_amount req)" "\<not> js_le (ToNumber s2n (body_amount req)) (Num 0)"
    "\<not> js_gt (ToNumber s2n (body_amount req)) (Num (remainingBalance loan))"
    using am rb by (simp_all add: isNaN_def)
  have id: "loanId loan = req_loanId req"
    using find_loanId [OF f] .
  have "createPayment s2n newId d req =
           (Success (p, req_loanId req, 0, PAID_OFF),
            d\<lparr>payments := payments d @ [p],
              loans := save_loan (loan\<lparr>status := PAID_OFF, remainingBalance := 0\<rparr>) (loans d)\<rparr>)"
    using f st tr t nn c s z id by (simp add: createPayment_def)
  then show ?thesis ..
qed

subsection \<open>The calculator and the loan handler, case by case\<close>

lemma power_gt_one:
  fixes q :: rat
  assumes "1 < q" "1 \<le> n"
  shows "1 < q ^ nat n"
proof -
  from assms(2) have "0 < nat n" by simp
  with assms(1) show ?thesis by (simp add: one_less_power)
qed

lemma calc_positive_rate:
  assumes "0 < r" "1 \<le> n"
  shows "calculateMonthlyPayment P r n = Inr (Num (round2 (annuity P (r / 100 / 12) (nat n))))"
proof -
  let ?m = "r / 100 / 12"
  have m: "0 < ?m" using assms(1) by simp
  then have "1 < (1 + ?m) ^ nat n"
    using power_gt_one [of "1 + ?m" n] assms(2) by simp
  then have nz: "(1 + ?m) ^ nat n - 1 \<noteq> 0" by simp
  have n0: "0 \<le> n" using assms(2) by simp
  have m0: "?m \<noteq> 0" using m by simp
  show ?thesis
    unfolding calculateMonthlyPayment_def Let_def annuity_def Math_pow_def
    using nz n0 m0 by (simp add: js_round2_Num mult.assoc)
qed


lemma calc_total: "\<exists>v. calculateMonthlyPayment P r n = Inr v"
  by (simp add: calculateMonthlyPayment_def Let_def)

lemma createLoan_Failure:
  assumes "is_failure (fst (createLoan newId d req))"
  shows "snd (createLoan newId d req) = d"
  using assms
  by (auto simp: createLoan_def Let_def split: option.splits sum.splits if_splits)

lemma Loan_save_Inr:
  assumes "Loan_save newId d req mp ta = Inr l"
  shows "1000 \<le> req_amount req \<and> req_amount req \<le> 100000000
     \<and> 1 / 10 \<le> req_interestRate req \<and> req_interestRate req \<le> 50
     \<and> 1 \<le> req_term req \<and> req_term req \<le> 360
     \<and> mp = Num (monthlyPayment l) \<and> ta = Num (totalAmount l)
     \<and> 1 \<le> monthlyPayment l \<and> 1 \<le> totalAmount l
     \<and> remainingBalance l = totalAmount l \<and> status l = ACTIVE
     \<and> amount l = req_amount req \<and> interestRate l = req_interestRate req
     \<and> term l = req_term req \<and> loanId l = newId \<and> loan_customerId l = req_customerId req
     \<and> newId \<notin> set (map loanId (loans d))"
proof -
  from assms have p: "Loan_invalid_paths req mp ta = []"
    by (auto simp: Loan_save_def split: if_splits)
  from p have rng: "1000 \<le> req_amount req \<and> req_amount req \<le> 100000000
     \<and> 1 / 10 \<le> req_interestRate req \<and> req_interestRate req \<le> 50
     \<and> 1 \<le> req_term req \<and> req_term req \<le> 360 \<and> min_ok 1 mp \<and> min_ok 1 ta"
    by (simp add: Loan_invalid_paths_def min_ok_def max_ok_def js_ge_def split: if_splits)
  from assms p obtain m t where mt: "mp = Num m" "ta = Num t"
    by (auto simp: Loan_save_def split: if_splits jsnum.splits)
  from assms p mt rng show ?thesis
    by (auto simp: Loan_save_def min_ok_def js_ge_def split: if_splits)
qed

lemma createLoan_Success:
  assumes "createLoan newId d req = (Success l, d')"
  shows "1000 \<le> amount l \<and> 1 / 10 \<le> interestRate l \<and> 1 \<le> term l
     \<and> calculateMonthlyPayment (amount l) (interestRate l) (term l) = Inr (Num (monthlyPayment l))
     \<and> totalAmount l = round2 (monthlyPayment l * of_int (term l))
     \<and> remainingBalance l = totalAmount l \<and> status l = ACTIVE
     \<and> amount l = req_amount req \<and> interestRate l = req_interestRate req
     \<and> term l = req_term req
     \<and> d' = d\<lparr>loans := loans d @ [l]\<rparr>"
proof -
  from assms obtain mp where c:
    "calculateMonthlyPayment (req_amount req) (req_interestRate req) (req_term req) = Inr mp"
    and s: "Loan_save newId d req mp (js_round2 (js_mul mp (Num (of_int (req_term req))))) = Inr l"
    and d': "d' = d\<lparr>loans := loans d @ [l]\<rparr>"
    by (auto simp: createLoan_def Let_def split: option.splits sum.splits if_splits)
  note L = Loan_save_Inr [OF s]
  from L have a1: "mp = Num (monthlyPayment l)"
    and a2: "js_round2 (js_mul mp (Num (of_int (req_term req)))) = Num (totalAmount l)"
    by blast+
  from a2 have "totalAmount l = round2 (monthlyPayment l * of_int (req_term req))"
    unfolding a1 by (simp add: js_round2_Num)
  with L c d' show ?thesis by simp
qed

subsection \<open>No non-finite number is stored\<close>

lemma createLoan_finite:
  "fst (createLoan newId d req) \<noteq> Failure 400 ''Failed to create loan'' (Some (Error ''non-finite number''))"
proof
  assume a: "fst (createLoan newId d req)
      = Failure 400 ''Failed to create loan'' (Some (Error ''non-finite number''))"
  then obtain mp where c:
    "calculateMonthlyPayment (req_amount req) (req_interestRate req) (req_term req) = Inr mp"
    and s: "Loan_save newId d req mp (js_round2 (js_mul mp (Num (of_int (req_term req)))))
        = Inl (Error ''non-finite number'')"
    by (auto simp: createLoan_def Let_def calculateMonthlyPayment_def
        split: option.splits sum.splits if_splits)
  from s have p: "Loan_invalid_paths req mp (js_round2 (js_mul mp (Num (of_int (req_term req))))) = []"
    by (auto simp: Loan_save_def split: if_splits)
  then have rng: "1 / 10 \<le> req_interestRate req" "1 \<le> req_term req"
    by (simp_all add: Loan_invalid_paths_def min_ok_def max_ok_def js_ge_def split: if_splits)
  from rng(1) have "0 < req_interestRate req" by simp
  from calc_positive_rate [OF this rng(2), of "req_amount req"] c
  obtain m where "mp = Num m" by auto
  with s p show False
    by (simp add: Loan_save_def js_round2_Num split: if_splits)
qed

lemma call_string_method_Inl: "call_string_method f v = Inl e \<Longrightarrow> e = TypeError"
  by (cases v) simp_all

lemma new_Payment_Inl: "new_Payment s2n req = Inl e \<Longrightarrow> e = TypeError"
  by (auto simp: new_Payment_def split: sum.splits if_splits dest: call_string_method_Inl)

lemma createPayment_finite:
  "fst (createPayment s2n newId d req)
     \<noteq> Failure 400 ''Failed to record payment'' (Some (Error ''non-finite number''))"
proof
  assume a: "fst (createPayment s2n newId d req)
      = Failure 400 ''Failed to record payment'' (Some (Error ''non-finite number''))"
  then have "(\<exists>cand. \<not> isNaN s2n (body_amount req)
        \<and> \<not> js_le (ToNumber s2n (body_amount req)) (Num 0)
        \<and> ToNumber s2n (body_amount req) \<noteq> PosInf
        \<and> new_Payment s2n req = Inr cand
        \<and> Payment_save newId d (req_loanId req) cand = Inl (Error ''non-finite number''))
      \<or> new_Payment s2n req = Inl (Error ''non-finite number'')"
    by (auto simp: createPayment_def Let_def split: option.splits sum.splits if_splits)
  with new_Payment_Inl [of s2n req "Error ''non-finite number''"] obtain cand where
    n: "\<not> isNaN s2n (body_amount req)" "\<not> js_le (ToNumber s2n (body_amount req)) (Num 0)"
      "ToNumber s2n (body_amount req) \<noteq> PosInf"
    and c: "new_Payment s2n req = Inr cand"
    and s: "Payment_save newId d (req_loanId req) cand = Inl (Error ''non-finite number'')"
    by auto
  from n obtain x where "ToNumber s2n (body_amount req) = Num x"
    by (cases "ToNumber s2n (body_amount req)") (simp_all add: isNaN_def)
  with new_Payment_Inr [OF c] have "fst cand = Num x" by simp
  with s show False
    by (cases cand) (simp add: Payment_save_def split: if_splits)
qed

subsection \<open>The dashboard sums\<close>

lemma foldl_add_sum_list: "foldl (+) a xs = a + sum_list xs" for a :: rat
  by (induction xs arbitrary: a) (simp_all add: add.assoc)

lemma first_total_group_sum: "first_total_or_0 (group_sum xs) = sum_list xs"
  by (cases xs) (simp_all add: first_total_or_0_def group_sum_def foldl_add_sum_list)

subsection \<open>The grid of two decimals\<close>

lemma loan_on_grid_payment_applied:
  assumes "loan_on_grid l"
  shows "loan_on_grid (payment_applied l a)"
  using assms
  by (simp add: loan_on_grid_def payment_applied_def on_cent_grid_round2 on_cent_grid_0)

lemma ledger_step_grid:
  assumes "ledger_step l l'" "loan_on_grid l"
  shows "loan_on_grid l'"
  using assms loan_on_grid_payment_applied unfolding ledger_step_def by blast

lemma createLoan_grid:
  assumes "createLoan newId d req = (Success l, d')"
  shows "loan_on_grid l"
proof -
  note S = createLoan_Success [OF assms]
  from S have c: "calculateMonthlyPayment (amount l) (interestRate l) (term l)
      = Inr (Num (monthlyPayment l))"
    and r: "0 < interestRate l" "1 \<le> term l"
    and t: "totalAmount l = round2 (monthlyPayment l * of_int (term l))"
    and b: "remainingBalance l = totalAmount l"
    by auto
  from calc_positive_rate [OF r, of "amount l"] c
  have "monthlyPayment l = round2 (annuity (amount l) (interestRate l / 100 / 12) (nat (term l)))"
    by simp
  then have "on_cent_grid (monthlyPayment l)"
    using on_cent_grid_round2 by simp
  moreover have "on_cent_grid (totalAmount l)"
    unfolding t by (rule on_cent_grid_round2)
  ultimately show ?thesis
    using b by (simp add: loan_on_grid_def)
qed

lemma handle_grid:
  assumes "\<forall>l \<in> set (loans d). loan_on_grid l"
  shows "\<forall>l \<in> set (loans (handle s2n d c)). loan_on_grid l"
proof (cases c)
  case (POST_loans newId req)
  from createLoan_loans [of newId d req]
  show ?thesis
  proof
    assume "loans (snd (createLoan newId d req)) = loans d"
    with assms POST_loans show ?thesis by simp
  next
    assume "\<exists>l. fst (createLoan newId d req) = Success l \<and>
        loans (snd (createLoan newId d req)) = loans d @ [l]"
    then obtain l where l: "fst (createLoan newId d req) = Success l"
      "loans (snd (createLoan newId d req)) = loans d @ [l]" by blast
    from l(1) have "createLoan newId d req = (Success l, snd (createLoan newId d req))"
      by (metis prod.collapse)
    from createLoan_grid [OF this] l(2) assms POST_loans show ?thesis by simp
  qed
next
  case (POST_payments newId req)
  show ?thesis
  proof
    fix l' assume "l' \<in> set (loans (handle s2n d c))"
    then obtain i where i: "i < length (loans (handle s2n d c))" "l' = loans (handle s2n d c) ! i"
      by (auto simp: in_set_conv_nth)
    from createPayment_loans [of s2n newId d req] POST_payments i
    have "i < length (loans d)" "ledger_step (loans d ! i) l'" by auto
    with assms ledger_step_grid show "loan_on_grid l'"
      by (metis nth_mem)
  qed
qed

lemma run_grid:
  assumes "\<forall>l \<in> set (loans d0). loan_on_grid l"
  shows "\<forall>l \<in> set (loans (run s2n d0 calls)). loan_on_grid l"
proof (induction calls rule: rev_induct)
  case Nil
  with assms show ?case by (simp add: run_def)
next
  case (snoc c calls)
  from handle_grid [OF snoc] show ?case by (simp add: run_snoc)
qed

subsection \<open>A lower bound of the interest of an annuity\<close>

lemma compound_discount_le_one:
  fixes m :: rat
  assumes "0 \<le> m"
  shows "(1 + m) ^ n * (1 - m * of_nat n) \<le> 1"
proof (induction n)
  case 0
  show ?case by simp
next
  case (Suc n)
  have "(1 + m) ^ Suc n * (1 - m * of_nat (Suc n))
      = (1 + m) ^ n * (1 - m * of_nat n) - (1 + m) ^ n * (m * m * (of_nat n + 1))"
    by (simp add: algebra_simps)
  moreover have "0 \<le> (1 + m) ^ n * (m * m * (of_nat n + 1))"
    using assms by simp
  ultimately show ?case using Suc by linarith
qed

lemma annuity_interest_bound:
  fixes m :: rat
  assumes "0 \<le> m"
  shows "(1 + m * (of_nat n + 1) / 2) * ((1 + m) ^ n - 1) \<le> of_nat n * m * (1 + m) ^ n"
proof (induction n)
  case 0
  show ?case by simp
next
  case (Suc n)
  let ?G = "\<lambda>k. of_nat k * m * (1 + m) ^ k - (1 + m * (of_nat k + 1) / 2) * ((1 + m) ^ k - 1)"
  have "?G (Suc n) = ?G n + m / 2 * (1 - (1 + m) ^ n * (1 - m * of_nat n))"
    by (simp add: field_simps)
  moreover have "0 \<le> m / 2 * (1 - (1 + m) ^ n * (1 - m * of_nat n))"
    using assms compound_discount_le_one [OF assms, of n] by simp
  moreover have "0 \<le> ?G n" using Suc by simp
  ultimately have "0 \<le> ?G (Suc n)" by linarith
  then show ?case by simp
qed

lemma annuity_total_lower:
  fixes m P :: rat
  assumes "0 < m" "0 \<le> P" "0 < n"
  shows "P * (1 + m * (of_nat n + 1) / 2) \<le> annuity P m n * of_nat n"
proof -
  have q: "1 < (1 + m) ^ n"
    using assms by (simp add: one_less_power)
  then have d: "0 < (1 + m) ^ n - 1" by simp
  from annuity_interest_bound [of m n] assms(1)
  have "(1 + m * (of_nat n + 1) / 2) * ((1 + m) ^ n - 1) \<le> of_nat n * m * (1 + m) ^ n"
    by simp
  then have "1 + m * (of_nat n + 1) / 2 \<le> of_nat n * m * (1 + m) ^ n / ((1 + m) ^ n - 1)"
    using d by (simp add: pos_le_divide_eq)
  then have "P * (1 + m * (of_nat n + 1) / 2)
      \<le> P * (of_nat n * m * (1 + m) ^ n / ((1 + m) ^ n - 1))"
    using assms(2) by (rule mult_left_mono)
  also have "\<dots> = annuity P m n * of_nat n"
    by (simp add: annuity_def)
  finally show ?thesis .
qed


lemma valid_loan_bounds:
  assumes P: "1000 \<le> P" and r: "1 / 10 \<le> r" and n: "1 \<le> n"
  shows "0 < round2 (annuity P (r / 100 / 12) (nat n))
     \<and> P < round2 (round2 (annuity P (r / 100 / 12) (nat n)) * of_int n)"
proof -
  define m where "m = r / 100 / 12"
  define N :: rat where "N = of_nat (nat n)"
  define A where "A = annuity P m (nat n)"
  define mp where "mp = round2 A"
  have m: "1 / 12000 \<le> m" using r by (simp add: m_def)
  have N: "1 \<le> N" using n by (simp add: N_def)
  have Nn: "of_int n = N" using n by (simp add: N_def)
  have Pm: "1 / 12 \<le> P * m"
    using mult_mono [of 1000 P "1 / 12000" m] P m by simp
  have "P * (1 + m * (of_nat (nat n) + 1) / 2) \<le> A * of_nat (nat n)"
    unfolding A_def using annuity_total_lower [of m P "nat n"] m P n by simp
  then have low: "P + P * m * ((N + 1) / 2) \<le> A * N"
    by (simp add: N_def algebra_simps)
  have "1 / 12 * ((N + 1) / 2) \<le> P * m * ((N + 1) / 2)"
    using Pm N by (intro mult_right_mono) simp_all
  with low have AN: "P + (N + 1) / 24 \<le> A * N" by linarith
  have "A - 1 / 200 < mp"
    unfolding mp_def by (rule round2_lower)
  then have "(A - 1 / 200) * N < mp * N"
    using N by (intro mult_strict_right_mono) simp_all
  then have mpN: "A * N - N / 200 < mp * N"
    by (simp add: algebra_simps)
  define X where "X = A * N"
  define Y where "Y = mp * N"
  define W where "W = N / 200"
  define Z where "Z = (N + 1) / 24"
  have lin: "X - W < Y" "P + Z \<le> X"
    using mpN AN by (simp_all add: X_def Y_def W_def Z_def)
  have WZ: "W + 1 / 200 \<le> Z"
    using N by (simp add: W_def Z_def field_simps)
  have "0 < Y" using lin WZ P by linarith
  then have pos: "0 < mp * N" by (simp add: Y_def)
  have mp0: "0 < mp"
  proof (rule ccontr)
    assume "\<not> 0 < mp"
    then have "mp * N \<le> 0" using N by (simp add: mult_le_0_iff)
    with pos show False by simp
  qed
  have "mp * N - 1 / 200 < round2 (mp * N)" by (rule round2_lower)
  then have "Y - 1 / 200 < round2 (mp * N)" by (simp add: Y_def)
  with lin WZ have "P < round2 (mp * N)" by linarith
  with mp0 show ?thesis
    by (simp add: mp_def A_def m_def Nn)
qed

subsection \<open>The first loan of the seed data\<close>

lemma Math_round_eqI:
  assumes "of_int k \<le> x + 1 / 2" "x + 1 / 2 < of_int k + 1"
  shows "Math_round x = k"
  unfolding Math_round_def using assms by (intro floor_unique) simp_all

lemma seed_growth_bounds:
  "6154965 / 4029965 < (2417 / 2400 :: rat) ^ 60" "(2417 / 2400 :: rat) ^ 60 \<le> 6154959 / 4029959"
  by (simp_all add: power_divide field_simps)

lemma seed_annuity_round: "round2 (annuity 500000 (17 / 2 / 100 / 12) (nat 60)) = 1025827 / 100"
proof -
  define Q :: rat where "Q = (2417 / 2400) ^ 60"
  have lo: "6154965 / 4029965 < Q" and hi: "Q \<le> 6154959 / 4029959"
    unfolding Q_def by (rule seed_growth_bounds)+
  have d: "0 < Q - 1" using lo by simp
  have a: "annuity 500000 (17 / 2 / 100 / 12) (nat 60) = 10625 / 3 * Q / (Q - 1)"
    by (simp add: annuity_def Q_def)
  have l: "1025827 - 1 / 2 \<le> 1062500 / 3 * Q / (Q - 1)"
    using d hi by (simp add: pos_le_divide_eq algebra_simps)
  have u: "1062500 / 3 * Q / (Q - 1) < 1025828 - 1 / 2"
    using d lo by (simp add: pos_divide_less_eq algebra_simps)
  have "Math_round (10625 / 3 * Q / (Q - 1) * 100) = 1025827"
    using l u by (intro Math_round_eqI) simp_all
  then show ?thesis
    unfolding a round2_def by simp
qed

lemma seed_total_round: "round2 (1025827 / 100 * 60) = 3077481 / 5"
  by code_simp

subsection \<open>Claims\<close>

text \<open>
  C1. A loan starts \<open>ACTIVE\<close> with its remaining balance equal to its (positive) total
  amount. After every sequence of requests to the API, accepted or not, the balance of
  that loan lies between zero and the total amount, which has not changed, the loan is
  \<open>PAID_OFF\<close> exactly when its balance is zero, and one more request does not raise the
  balance.
\<close>

theorem balance_invariant:
  assumes "i < length (loans d0)"
    and "status (loans d0 ! i) = ACTIVE"
    and "remainingBalance (loans d0 ! i) = totalAmount (loans d0 ! i)"
    and "0 < totalAmount (loans d0 ! i)"
  shows "0 \<le> remainingBalance (loans (run s2n d0 calls) ! i)
     \<and> remainingBalance (loans (run s2n d0 calls) ! i) \<le> totalAmount (loans d0 ! i)
     \<and> totalAmount (loans (run s2n d0 calls) ! i) = totalAmount (loans d0 ! i)
     \<and> (status (loans (run s2n d0 calls) ! i) = PAID_OFF
          \<longleftrightarrow> remainingBalance (loans (run s2n d0 calls) ! i) = 0)
     \<and> remainingBalance (loans (handle s2n (run s2n d0 calls) c) ! i)
         \<le> remainingBalance (loans (run s2n d0 calls) ! i)"
proof -
  have inv0: "ledger_invariant (loans d0 ! i)"
    using assms by (simp add: ledger_invariant_def)
  note r = run_loans [OF assms(1) inv0, of s2n calls]
  from r handle_loans [of "run s2n d0 calls" s2n c]
  have "ledger_step (loans (run s2n d0 calls) ! i)
          (loans (handle s2n (run s2n d0 calls) c) ! i)"
    by auto
  from ledger_step_invariant [OF this] r show ?thesis
    by (simp add: ledger_invariant_def)
qed

theorem balance_invariant_witness:
  "0 < length (loans example_db)
   \<and> status (loans example_db ! 0) = ACTIVE
   \<and> remainingBalance (loans example_db ! 0) = totalAmount (loans example_db ! 0)
   \<and> 0 < totalAmount (loans example_db ! 0)
   \<and> 0 \<le> remainingBalance
        (loans (run no_strings example_db
           [POST_payments ''PAY-1'' (example_payment (JNum 1000))]) ! 0)
   \<and> remainingBalance
        (loans (handle no_strings
           (run no_strings example_db [POST_payments ''PAY-1'' (example_payment (JNum 1000))])
           (POST_payments ''PAY-2'' (example_payment (JNum (331 / 5))))) ! 0)
      \<le> remainingBalance
        (loans (run no_strings example_db
           [POST_payments ''PAY-1'' (example_payment (JNum 1000))]) ! 0)"
proof -
  have h1: "0 < length (loans example_db)"
    and h2: "status (loans example_db ! 0) = ACTIVE"
    and h3: "remainingBalance (loans example_db ! 0) = totalAmount (loans example_db ! 0)"
    and h4: "0 < totalAmount (loans example_db ! 0)"
    by (simp_all add: example_db_def example_loan_def)
  from balance_invariant [OF h1 h2 h3 h4, of no_strings
      "[POST_payments ''PAY-1'' (example_payment (JNum 1000))]"
      "POST_payments ''PAY-2'' (example_payment (JNum (331 / 5)))"]
  show ?thesis using h1 h2 h3 h4 by simp
qed

text \<open>
  C2, as the source has it. The handler accepts any positive amount up to the balance,
  but \<open>paymentSchema\<close> requires \<open>amount >= 1\<close>: on a loan whose balance is below 1 the
  payment of exactly the balance fails at \<open>payment.save()\<close> and the loan stays \<open>ACTIVE\<close>.
  Here the loan of \<open>example_db\<close> has been paid down to 0.50. And a request against a
  paid-off loan is answered by the first check that it fails: an amount of \<open>-5\<close> gets the
  message of the amount check, not the one of the paid-off check.
\<close>

theorem payoff_payment_counterexample:
  "loans (run no_strings example_db [POST_payments ''PAY-1'' (example_payment (JNum (10657 / 10)))])
     = [example_loan\<lparr>remainingBalance := 1 / 2\<rparr>]
   \<and> createPayment no_strings ''PAY-2''
        (example_db\<lparr>loans := [example_loan\<lparr>remainingBalance := 1 / 2\<rparr>]\<rparr>)
        (example_payment (JNum (1 / 2)))
     = (Failure 400 ''Failed to record payment'' (Some (ValidationError [''amount''])),
        example_db\<lparr>loans := [example_loan\<lparr>remainingBalance := 1 / 2\<rparr>]\<rparr>)
   \<and> createPayment no_strings ''PAY-2''
        (example_db\<lparr>loans := [example_loan\<lparr>status := PAID_OFF, remainingBalance := 0\<rparr>]\<rparr>)
        (example_payment (JNum (- 5)))
     = (Failure 400 ''Payment amount must be a positive number'' None,
        example_db\<lparr>loans := [example_loan\<lparr>status := PAID_OFF, remainingBalance := 0\<rparr>]\<rparr>)"
  by code_simp

text \<open>
  C2, amended. On an \<open>ACTIVE\<close> loan whose balance is at least 1, a request with
  well-formed fields, a fresh payment id and an amount equal to the balance is accepted:
  the balance becomes exactly 0 and the status \<open>PAID_OFF\<close>. From then on, whatever
  requests follow, every payment request against that loan fails and changes nothing, and
  one that carries the required fields and a positive amount fails with the message
  that the loan is already paid off.
\<close>

theorem payoff_payment:
  assumes "find (\<lambda>l. loanId l = req_loanId req) (loans d) = Some loan"
    and "status loan = ACTIVE"
    and "1 \<le> remainingBalance loan"
    and "truthy (body_amount req)"
    and "ToNumber s2n (body_amount req) = Num (remainingBalance loan)"
    and "well_formed_fields req"
    and "newId \<notin> set (map paymentId (payments d))"
  shows "\<exists>p d'. createPayment s2n newId d req = (Success (p, req_loanId req, 0, PAID_OFF), d')
      \<and> find (\<lambda>l. loanId l = req_loanId req) (loans d')
          = Some (loan\<lparr>status := PAID_OFF, remainingBalance := 0\<rparr>)
      \<and> (\<forall>calls newId' req'. req_loanId req' = req_loanId req \<longrightarrow>
            snd (createPayment s2n newId' (run s2n d' calls) req') = run s2n d' calls
          \<and> is_failure (fst (createPayment s2n newId' (run s2n d' calls) req'))
          \<and> (req_loanId req' \<noteq> [] \<and> truthy (body_amount req') \<and> truthy (body_paymentType req')
               \<and> truthy (body_paymentMethod req') \<and> \<not> isNaN s2n (body_amount req')
               \<and> \<not> js_le (ToNumber s2n (body_amount req')) (Num 0)
             \<longrightarrow> fst (createPayment s2n newId' (run s2n d' calls) req')
                 = Failure 400 ''Cannot add payment to a loan that is already paid off'' None))"
proof -
  let ?l = "loan\<lparr>status := PAID_OFF, remainingBalance := 0\<rparr>"
  from payoff_accepted [OF assms] obtain p where
    c: "createPayment s2n newId d req =
           (Success (p, req_loanId req, 0, PAID_OFF),
            d\<lparr>payments := payments d @ [p], loans := save_loan ?l (loans d)\<rparr>)"
    by blast
  let ?d' = "d\<lparr>payments := payments d @ [p], loans := save_loan ?l (loans d)\<rparr>"
  have id: "loanId ?l = req_loanId req"
    using find_loanId [OF assms(1)] by simp
  have f': "find (\<lambda>l. loanId l = req_loanId req) (loans ?d') = Some ?l"
    using find_save_loan_same [OF assms(1) id] by simp
  have po: "status ?l = PAID_OFF" by simp
  have later: "snd (createPayment s2n newId' (run s2n ?d' calls) req') = run s2n ?d' calls
          \<and> is_failure (fst (createPayment s2n newId' (run s2n ?d' calls) req'))
          \<and> (req_loanId req' \<noteq> [] \<and> truthy (body_amount req') \<and> truthy (body_paymentType req')
               \<and> truthy (body_paymentMethod req') \<and> \<not> isNaN s2n (body_amount req')
               \<and> \<not> js_le (ToNumber s2n (body_amount req')) (Num 0)
             \<longrightarrow> fst (createPayment s2n newId' (run s2n ?d' calls) req')
                 = Failure 400 ''Cannot add payment to a loan that is already paid off'' None)"
    if "req_loanId req' = req_loanId req" for calls newId' req'
  proof -
    from run_paid_off [OF f' po, of s2n calls] that
    have g: "find (\<lambda>l. loanId l = req_loanId req') (loans (run s2n ?d' calls)) = Some ?l"
      by simp
    from createPayment_paid_off [OF g po] show ?thesis by blast
  qed
  from c f' later show ?thesis by blast
qed

theorem payoff_payment_witness:
  "find (\<lambda>l. loanId l = req_loanId (example_payment (JNum (5331 / 5)))) (loans example_db)
     = Some example_loan
   \<and> 1 \<le> remainingBalance example_loan
   \<and> well_formed_fields (example_payment (JNum (5331 / 5)))
   \<and> (\<exists>p d'. createPayment no_strings ''PAY-1'' example_db (example_payment (JNum (5331 / 5)))
          = (Success (p, ''LOAN-1'', 0, PAID_OFF), d')
        \<and> fst (createPayment no_strings ''PAY-2'' d' (example_payment (JNum 5)))
          = Failure 400 ''Cannot add payment to a loan that is already paid off'' None)"
proof -
  let ?req = "example_payment (JNum (5331 / 5))"
  have h1: "find (\<lambda>l. loanId l = req_loanId ?req) (loans example_db) = Some example_loan"
    by (simp add: example_db_def example_payment_def example_loan_def)
  have h2: "status example_loan = ACTIVE" and h3: "1 \<le> remainingBalance example_loan"
    by (simp_all add: example_loan_def)
  have h4: "truthy (body_amount ?req)"
    and h5: "ToNumber no_strings (body_amount ?req) = Num (remainingBalance example_loan)"
    by (simp_all add: example_payment_def example_loan_def)
  have h6: "well_formed_fields ?req"
    by code_simp
  have h7: "''PAY-1'' \<notin> set (map paymentId (payments example_db))"
    by (simp add: example_db_def)
  have id: "req_loanId ?req = ''LOAN-1''"
    by (simp add: example_payment_def)
  have q: "req_loanId (example_payment (JNum 5)) = req_loanId ?req
      \<and> req_loanId (example_payment (JNum 5)) \<noteq> [] \<and> truthy (body_amount (example_payment (JNum 5)))
      \<and> truthy (body_paymentType (example_payment (JNum 5)))
      \<and> truthy (body_paymentMethod (example_payment (JNum 5)))
      \<and> \<not> isNaN no_strings (body_amount (example_payment (JNum 5)))
      \<and> \<not> js_le (ToNumber no_strings (body_amount (example_payment (JNum 5)))) (Num 0)"
    by (simp add: example_payment_def isNaN_def)
  from payoff_payment [OF h1 h2 h3 h4 h5 h6 h7]
  obtain p d' where c: "createPayment no_strings ''PAY-1'' example_db ?req
        = (Success (p, req_loanId ?req, 0, PAID_OFF), d')"
    and later: "\<forall>calls newId' req'. req_loanId req' = req_loanId ?req \<longrightarrow>
            snd (createPayment no_strings newId' (run no_strings d' calls) req') = run no_strings d' calls
          \<and> is_failure (fst (createPayment no_strings newId' (run no_strings d' calls) req'))
          \<and> (req_loanId req' \<noteq> [] \<and> truthy (body_amount req') \<and> truthy (body_paymentType req')
               \<and> truthy (body_paymentMethod req') \<and> \<not> isNaN no_strings (body_amount req')
               \<and> \<not> js_le (ToNumber no_strings (body_amount req')) (Num 0)
             \<longrightarrow> fst (createPayment no_strings newId' (run no_strings d' calls) req')
                 = Failure 400 ''Cannot add payment to a loan that is already paid off'' None)"
    by blast
  have r0: "run no_strings d' [] = d'"
    by (simp add: run_def)
  from later [rule_format, of "example_payment (JNum 5)" "''PAY-2''" "[]"] q
  have "fst (createPayment no_strings ''PAY-2'' d' (example_payment (JNum 5)))
          = Failure 400 ''Cannot add payment to a loan that is already paid off'' None"
    unfolding r0 by blast
  with c id h1 h3 h6 show ?thesis by auto
qed

text \<open>
  C3. A payment request that fails leaves the database as it was: no Payment document is
  created and no loan changes. And the request fails whenever its amount is not a number
  (\<open>isNaN\<close>) or is not positive, the loan does not exist, the loan is \<open>PAID_OFF\<close>, or the
  amount exceeds the remaining balance.
\<close>

theorem rejected_payment_changes_nothing:
  "(is_failure (fst (createPayment s2n newId d req)) \<longrightarrow> snd (createPayment s2n newId d req) = d)
   \<and> ((isNaN s2n (body_amount req)
        \<or> js_le (ToNumber s2n (body_amount req)) (Num 0)
        \<or> find (\<lambda>l. loanId l = req_loanId req) (loans d) = None
        \<or> (\<exists>loan. find (\<lambda>l. loanId l = req_loanId req) (loans d) = Some loan
              \<and> (status loan = PAID_OFF
                  \<or> js_gt (ToNumber s2n (body_amount req)) (Num (remainingBalance loan)))))
       \<longrightarrow> is_failure (fst (createPayment s2n newId d req)))"
proof -
  have "is_failure (fst (createPayment s2n newId d req))"
    if "isNaN s2n (body_amount req) \<or> js_le (ToNumber s2n (body_amount req)) (Num 0)"
    using that by (simp add: createPayment_def)
  moreover have "is_failure (fst (createPayment s2n newId d req))"
    if "find (\<lambda>l. loanId l = req_loanId req) (loans d) = None"
    using that by (simp add: createPayment_def)
  moreover have "is_failure (fst (createPayment s2n newId d req))"
    if "find (\<lambda>l. loanId l = req_loanId req) (loans d) = Some loan"
      and "status loan = PAID_OFF \<or> js_gt (ToNumber s2n (body_amount req)) (Num (remainingBalance loan))"
    for loan
    using that by (auto simp: createPayment_def)
  ultimately show ?thesis
    using createPayment_Failure [of s2n newId d req] by blast
qed

theorem rejected_payment_changes_nothing_witness:
  "is_failure (fst (createPayment no_strings ''PAY-1'' example_db (example_payment (JNum 2000))))
   \<and> js_gt (ToNumber no_strings (body_amount (example_payment (JNum 2000))))
        (Num (remainingBalance example_loan))
   \<and> snd (createPayment no_strings ''PAY-1'' example_db (example_payment (JNum 2000))) = example_db"
proof -
  have f: "find (\<lambda>l. loanId l = req_loanId (example_payment (JNum 2000))) (loans example_db)
      = Some example_loan"
    by (simp add: example_db_def example_payment_def example_loan_def)
  have g: "js_gt (ToNumber no_strings (body_amount (example_payment (JNum 2000))))
        (Num (remainingBalance example_loan))"
    by (simp add: example_payment_def example_loan_def)
  from rejected_payment_changes_nothing
    [of no_strings "''PAY-1''" example_db "example_payment (JNum 2000)"] f g
  show ?thesis by blast
qed



text \<open>
  C5, as the source has it. The calculator validates nothing: with a negative principal,
  a negative rate or a negative term it returns a finite number, with the term 0 it
  returns \<open>Infinity\<close>, and it signals no error.
\<close>

theorem calculator_validation_counterexample:
  "calculateMonthlyPayment (- 1000) 12 1 = Inr (Num (- 1010))
   \<and> calculateMonthlyPayment 1000 (- 12) 12 = Inr (Num (3901 / 50))
   \<and> calculateMonthlyPayment 1000 12 (- 12) = Inr (Num (- (1577 / 20)))
   \<and> calculateMonthlyPayment 1000 12 0 = Inr PosInf"
  by code_simp

text \<open>
  C5, amended. The calculator returns a value on every finite principal and rate and
  every whole term, and never signals an error. The rejection is done by the loan
  handler: a request with a term \<open>\<le> 0\<close>, an amount \<open>\<le> 0\<close> or a rate \<open>< 0\<close> fails, by
  the handler's own checks or by the validators of \<open>loanSchema\<close>, and stores nothing.
\<close>

theorem calculator_never_signals:
  "(\<exists>v. calculateMonthlyPayment P r n = Inr v)
   \<and> (req_term req \<le> 0 \<or> req_amount req \<le> 0 \<or> req_interestRate req < 0
        \<longrightarrow> is_failure (fst (createLoan newId d req)) \<and> snd (createLoan newId d req) = d)"
proof -
  have "is_failure (fst (createLoan newId d req))"
    if bad: "req_term req \<le> 0 \<or> req_amount req \<le> 0 \<or> req_interestRate req < 0"
  proof (cases "fst (createLoan newId d req)")
    case (Success l)
    then have "createLoan newId d req = (Success l, snd (createLoan newId d req))"
      by (metis prod.collapse)
    from createLoan_Success [OF this] bad show ?thesis by auto
  next
    case (Failure c m e)
    then show ?thesis by simp
  qed
  with createLoan_Failure [of newId d req] calc_total [of P r n] show ?thesis by blast
qed

theorem calculator_never_signals_witness:
  "req_term (example_loan_request\<lparr>req_term := - 12\<rparr>) \<le> 0
   \<and> calculateMonthlyPayment 1000 12 (- 12) = Inr (Num (- (1577 / 20)))
   \<and> createLoan ''LOAN-2'' example_db (example_loan_request\<lparr>req_term := - 12\<rparr>)
       = (Failure 400 ''Failed to create loan''
            (Some (ValidationError [''term'', ''monthlyPayment''])),
          example_db)"
proof -
  have h: "req_term (example_loan_request\<lparr>req_term := - 12\<rparr>) \<le> 0"
    by (simp add: example_loan_request_def)
  have v: "calculateMonthlyPayment 1000 12 (- 12) = Inr (Num (- (1577 / 20)))"
    by code_simp
  have e: "fst (createLoan ''LOAN-2'' example_db (example_loan_request\<lparr>req_term := - 12\<rparr>))
       = Failure 400 ''Failed to create loan''
            (Some (ValidationError [''term'', ''monthlyPayment'']))"
    by code_simp
  from calculator_never_signals [of 1000 12 "- 12" "example_loan_request\<lparr>req_term := - 12\<rparr>"
      "''LOAN-2''" example_db] h
  have "snd (createLoan ''LOAN-2'' example_db (example_loan_request\<lparr>req_term := - 12\<rparr>)) = example_db"
    by blast
  with e have "createLoan ''LOAN-2'' example_db (example_loan_request\<lparr>req_term := - 12\<rparr>)
       = (Failure 400 ''Failed to create loan''
            (Some (ValidationError [''term'', ''monthlyPayment''])),
          example_db)"
    by (metis prod.collapse)
  with h v show ?thesis by blast
qed

text \<open>
  C6. For a principal of at least 1000, a rate of at least 0.1 percent and a whole term
  of at least one month, the monthly payment is positive and the total amount that the
  loan handler derives from it (the payment times the term, rounded to two decimals) is
  greater than the principal; so are the monthly payment and the total amount of every
  loan that the handler creates. At these rates the total never equals the principal.
\<close>

theorem valid_loan_amounts:
  assumes "1000 \<le> P" and "1 / 10 \<le> r" and "1 \<le> n"
  shows "(\<exists>mp ta. calculateMonthlyPayment P r n = Inr (Num mp)
           \<and> js_round2 (js_mul (Num mp) (Num (of_int n))) = Num ta
           \<and> 0 < mp \<and> P < ta)
     \<and> (\<forall>newId d req l d'. createLoan newId d req = (Success l, d') \<longrightarrow>
           0 < monthlyPayment l \<and> amount l < totalAmount l)"
proof -
  have r0: "0 < r" using assms(2) by simp
  note b = valid_loan_bounds [OF assms]
  have "calculateMonthlyPayment P r n = Inr (Num (round2 (annuity P (r / 100 / 12) (nat n))))"
    by (rule calc_positive_rate [OF r0 assms(3)])
  moreover have "js_round2 (js_mul (Num (round2 (annuity P (r / 100 / 12) (nat n)))) (Num (of_int n)))
      = Num (round2 (round2 (annuity P (r / 100 / 12) (nat n)) * of_int n))"
    by (simp add: js_round2_Num)
  ultimately have first: "\<exists>mp ta. calculateMonthlyPayment P r n = Inr (Num mp)
           \<and> js_round2 (js_mul (Num mp) (Num (of_int n))) = Num ta
           \<and> 0 < mp \<and> P < ta"
    using b by blast
  have second: "0 < monthlyPayment l \<and> amount l < totalAmount l"
    if "createLoan newId d req = (Success l, d')" for newId d req l d'
  proof -
    note S = createLoan_Success [OF that]
    from S have h: "1000 \<le> amount l" "1 / 10 \<le> interestRate l" "1 \<le> term l" by blast+
    from h(2) have "0 < interestRate l" by simp
    from S have c: "calculateMonthlyPayment (amount l) (interestRate l) (term l)
        = Inr (Num (monthlyPayment l))" by blast
    from calc_positive_rate [OF \<open>0 < interestRate l\<close> h(3), of "amount l"] c
    have mp: "monthlyPayment l = round2 (annuity (amount l) (interestRate l / 100 / 12) (nat (term l)))"
      by simp
    from S have t: "totalAmount l = round2 (monthlyPayment l * of_int (term l))" by blast
    from valid_loan_bounds [OF h] show ?thesis
      unfolding t unfolding mp by simp
  qed
  from first second show ?thesis by blast
qed

theorem valid_loan_amounts_witness:
  "(1000 :: rat) \<le> 1000 \<and> (1 / 10 :: rat) \<le> 12 \<and> (1 :: int) \<le> 12
   \<and> calculateMonthlyPayment 1000 12 12 = Inr (Num (1777 / 20))
   \<and> js_round2 (js_mul (Num (1777 / 20)) (Num (of_int 12))) = Num (5331 / 5)
   \<and> createLoan ''LOAN-1'' (example_db\<lparr>loans := []\<rparr>) example_loan_request
        = (Success example_loan, example_db)
   \<and> 0 < monthlyPayment example_loan \<and> amount example_loan < totalAmount example_loan"
proof -
  have h1: "(1000 :: rat) \<le> 1000" and h2: "(1 / 10 :: rat) \<le> 12" and h3: "(1 :: int) \<le> 12"
    by simp_all
  have v: "calculateMonthlyPayment 1000 12 12 = Inr (Num (1777 / 20))"
    by code_simp
  have w: "js_round2 (js_mul (Num (1777 / 20)) (Num (of_int 12))) = Num (5331 / 5)"
    by code_simp
  have e: "createLoan ''LOAN-1'' (example_db\<lparr>loans := []\<rparr>) example_loan_request
       = (Success example_loan, example_db)"
    by code_simp
  from valid_loan_amounts [OF h1 h2 h3] e
  have "0 < monthlyPayment example_loan \<and> amount example_loan < totalAmount example_loan"
    by blast
  with h1 h2 h3 v w e show ?thesis by blast
qed

text \<open>
  C7. For the principal 500000, the rate 8.5 and 60 months the calculator returns
  10258.27, and the total amount that the loan handler stores is 615496.20: both within
  0.01 of the values of the specification, which are the ones of the seed data.
\<close>

theorem seed_loan_amounts:
  "calculateMonthlyPayment 500000 (17 / 2) 60 = Inr (Num (1025827 / 100))
   \<and> js_round2 (js_mul (Num (1025827 / 100)) (Num 60)) = Num (3077481 / 5)
   \<and> \<bar>1025827 / 100 - 10258.27\<bar> \<le> (0.01 :: rat)
   \<and> \<bar>3077481 / 5 - 615496.20\<bar> \<le> (0.01 :: rat)
   \<and> fst (createLoan ''LOAN-2'' example_db seed_loan_request)
       = Success \<lparr>loanId = ''LOAN-2'', loan_customerId = ''CUST-1'', amount = 500000,
           interestRate = 17 / 2, term = 60, status = ACTIVE, monthlyPayment = 1025827 / 100,
           totalAmount = 3077481 / 5, remainingBalance = 3077481 / 5\<rparr>"
proof -
  have c: "calculateMonthlyPayment 500000 (17 / 2) 60 = Inr (Num (1025827 / 100))"
    using calc_positive_rate [of "17 / 2" 60 500000] seed_annuity_round by simp
  have t: "js_round2 (js_mul (Num (1025827 / 100)) (Num 60)) = Num (3077481 / 5)"
    using seed_total_round by (simp add: js_round2_Num)
  have f: "find (\<lambda>c. customerId c = ''CUST-1'') (customers example_db) = Some example_customer"
    by (simp add: example_db_def example_customer_def)
  have p: "Loan_invalid_paths seed_loan_request (Num (1025827 / 100)) (Num (3077481 / 5)) = []"
    by (simp add: Loan_invalid_paths_def seed_loan_request_def min_ok_def max_ok_def js_ge_def)
  have s: "Loan_save ''LOAN-2'' example_db seed_loan_request (Num (1025827 / 100)) (Num (3077481 / 5))
      = Inr \<lparr>loanId = ''LOAN-2'', loan_customerId = ''CUST-1'', amount = 500000,
           interestRate = 17 / 2, term = 60, status = ACTIVE, monthlyPayment = 1025827 / 100,
           totalAmount = 3077481 / 5, remainingBalance = 3077481 / 5\<rparr>"
    unfolding Loan_save_def p
    by (simp add: seed_loan_request_def example_db_def example_loan_def)
  have r: "req_customerId seed_loan_request = ''CUST-1''" "req_amount seed_loan_request = 500000"
    "req_interestRate seed_loan_request = 17 / 2" "req_term seed_loan_request = 60"
    by (simp_all add: seed_loan_request_def)
  have "fst (createLoan ''LOAN-2'' example_db seed_loan_request)
       = Success \<lparr>loanId = ''LOAN-2'', loan_customerId = ''CUST-1'', amount = 500000,
           interestRate = 17 / 2, term = 60, status = ACTIVE, monthlyPayment = 1025827 / 100,
           totalAmount = 3077481 / 5, remainingBalance = 3077481 / 5\<rparr>"
    unfolding createLoan_def r using f c t s by simp
  with c t show ?thesis by simp
qed

text \<open>
  C8. The statistics of the dashboard are functions of the stored documents alone: the
  total loan amount is the sum of \<open>amount\<close> over the loans, the total collected is the
  sum of \<open>amount\<close> over the payments whose status is \<open>completed\<close>, and the two counts are
  the numbers of loans that are \<open>ACTIVE\<close> and \<open>PAID_OFF\<close>.
\<close>

theorem dashboard_aggregates:
  "totalLoanAmount (dashboard d) = (\<Sum>l\<leftarrow>loans d. amount l)
   \<and> totalCollected (dashboard d)
       = (\<Sum>p\<leftarrow>filter (\<lambda>p. pay_status p = completed) (payments d). pay_amount p)
   \<and> activeLoans (dashboard d) = length (filter (\<lambda>l. status l = ACTIVE) (loans d))
   \<and> paidOffLoans (dashboard d) = length (filter (\<lambda>l. status l = PAID_OFF) (loans d))"
  by (simp add: dashboard_def first_total_group_sum countDocuments_def)

text \<open>
  C9. The monthly payment, total amount and remaining balance of a loan that the loan
  handler creates are whole numbers of hundredths; so is the remaining balance that an
  accepted payment leaves; and when every stored loan has its three amounts on that grid,
  this is still so after any sequence of requests.
\<close>

theorem stored_amounts_on_grid:
  "(\<forall>l d'. createLoan newId d lreq = (Success l, d') \<longrightarrow> loan_on_grid l)
   \<and> (\<forall>p lid rb st d'. createPayment s2n newId d preq = (Success (p, lid, rb, st), d')
         \<longrightarrow> on_cent_grid rb)
   \<and> ((\<forall>l \<in> set (loans d). loan_on_grid l)
         \<longrightarrow> (\<forall>l \<in> set (loans (run s2n d calls)). loan_on_grid l))"
proof -
  have a: "loan_on_grid l" if "createLoan newId d lreq = (Success l, d')" for l d'
    using createLoan_grid [OF that] .
  have b: "on_cent_grid rb"
    if "createPayment s2n newId d preq = (Success (p, lid, rb, st), d')" for p lid rb st d'
  proof -
    from createPayment_Success [OF that] obtain loan a where
      "rb = remainingBalance (payment_applied loan a)" by auto
    then show ?thesis
      by (simp add: payment_applied_def on_cent_grid_round2 on_cent_grid_0)
  qed
  have c: "\<forall>l \<in> set (loans (run s2n d calls)). loan_on_grid l"
    if "\<forall>l \<in> set (loans d). loan_on_grid l"
    using run_grid [OF that] .
  from a b c show ?thesis by blast
qed

theorem stored_amounts_on_grid_witness:
  "loans (example_db\<lparr>loans := []\<rparr>) = []
   \<and> loans (run no_strings (example_db\<lparr>loans := []\<rparr>)
        [POST_loans ''LOAN-1'' example_loan_request,
         POST_payments ''PAY-1'' (example_payment (JNum (12345 / 1000)))])
      = [example_loan\<lparr>remainingBalance := 105386 / 100\<rparr>]
   \<and> loan_on_grid (example_loan\<lparr>remainingBalance := 105386 / 100\<rparr>)"
proof -
  have h: "\<forall>l \<in> set (loans (example_db\<lparr>loans := []\<rparr>)). loan_on_grid l"
    by simp
  have e: "loans (run no_strings (example_db\<lparr>loans := []\<rparr>)
        [POST_loans ''LOAN-1'' example_loan_request,
         POST_payments ''PAY-1'' (example_payment (JNum (12345 / 1000)))])
      = [example_loan\<lparr>remainingBalance := 105386 / 100\<rparr>]"
    by code_simp
  from stored_amounts_on_grid [of "''X''" "example_db\<lparr>loans := []\<rparr>" example_loan_request
      no_strings "example_payment (JNum 1)"
      "[POST_loans ''LOAN-1'' example_loan_request,
         POST_payments ''PAY-1'' (example_payment (JNum (12345 / 1000)))]"] h
  have "\<forall>l \<in> set (loans (run no_strings (example_db\<lparr>loans := []\<rparr>)
        [POST_loans ''LOAN-1'' example_loan_request,
         POST_payments ''PAY-1'' (example_payment (JNum (12345 / 1000)))])). loan_on_grid l"
    by blast
  with e have "loan_on_grid (example_loan\<lparr>remainingBalance := 105386 / 100\<rparr>)"
    by simp
  with e show ?thesis by simp
qed

text \<open>
  C10. A request with an amount strictly between 0 and 1, against an \<open>ACTIVE\<close> loan
  whose balance covers it, fails and changes nothing, and it is not the amount check nor
  the balance check that rejects it. When the request carries the loan id, a truthy
  amount, type and method as non-empty strings and a reference that is absent or a
  string, it fails in the \<open>catch\<close> block with the validation error of \<open>payment.save()\<close>,
  which names the path \<open>amount\<close>.
\<close>

theorem sub_unit_payment_rejected:
  assumes "find (\<lambda>l. loanId l = req_loanId req) (loans d) = Some loan"
    and "status loan = ACTIVE"
    and "ToNumber s2n (body_amount req) = Num a"
    and "0 < a" and "a < 1" and "a \<le> remainingBalance loan"
  shows "snd (createPayment s2n newId d req) = d
     \<and> is_failure (fst (createPayment s2n newId d req))
     \<and> fst (createPayment s2n newId d req)
         \<noteq> Failure 400 ''Payment amount must be a positive number'' None
     \<and> fst (createPayment s2n newId d req)
         \<noteq> Failure 400 ''Payment amount exceeds remaining balance'' None
     \<and> (req_loanId req \<noteq> [] \<and> truthy (body_amount req)
          \<and> (\<exists>t. body_paymentType req = JStr t \<and> t \<noteq> [])
          \<and> (\<exists>m. body_paymentMethod req = JStr m \<and> m \<noteq> [])
          \<and> (\<not> truthy (body_reference req) \<or> (\<exists>r. body_reference req = JStr r))
        \<longrightarrow> (\<exists>paths. fst (createPayment s2n newId d req)
                 = Failure 400 ''Failed to record payment'' (Some (ValidationError paths))
               \<and> ''amount'' \<in> set paths))"
proof -
  have nn: "\<not> isNaN s2n (body_amount req)" "\<not> js_le (ToNumber s2n (body_amount req)) (Num 0)"
    "\<not> js_gt (ToNumber s2n (body_amount req)) (Num (remainingBalance loan))"
    using assms by (simp_all add: isNaN_def)
  have nosave: "\<exists>paths. Payment_save newId d lid cand = Inl (ValidationError paths)
      \<and> ''amount'' \<in> set paths"
    if "fst cand = Num a" for cand lid
    using that assms(5)
    by (cases cand) (auto simp: Payment_save_def Payment_invalid_paths_def min_ok_def js_ge_def)
  have fail: "is_failure (fst (createPayment s2n newId d req))"
  proof (cases "fst (createPayment s2n newId d req)")
    case (Success body)
    then have "createPayment s2n newId d req = (Success body, snd (createPayment s2n newId d req))"
      by (metis prod.collapse)
    from createPayment_Success [OF this] assms(3,5) show ?thesis by auto
  next
    case (Failure c m e)
    then show ?thesis by simp
  qed
  have msg: "fst (createPayment s2n newId d req)
         \<noteq> Failure 400 ''Payment amount must be a positive number'' None
     \<and> fst (createPayment s2n newId d req)
         \<noteq> Failure 400 ''Payment amount exceeds remaining balance'' None"
    using assms(1,2) nn
    by (auto simp: createPayment_def Let_def split: sum.splits)
  have sch: "\<exists>paths. fst (createPayment s2n newId d req)
                 = Failure 400 ''Failed to record payment'' (Some (ValidationError paths))
               \<and> ''amount'' \<in> set paths"
    if w: "req_loanId req \<noteq> [] \<and> truthy (body_amount req)
          \<and> (\<exists>t. body_paymentType req = JStr t \<and> t \<noteq> [])
          \<and> (\<exists>m. body_paymentMethod req = JStr m \<and> m \<noteq> [])
          \<and> (\<not> truthy (body_reference req) \<or> (\<exists>r. body_reference req = JStr r))"
  proof -
    from w have "\<exists>cand. new_Payment s2n req = Inr cand"
      by (cases "truthy (body_reference req)") (auto simp: new_Payment_def)
    then obtain cand where c: "new_Payment s2n req = Inr cand" ..
    from new_Payment_Inr [OF c] assms(3) have "fst cand = Num a" by simp
    from nosave [OF this, of "req_loanId req"] obtain paths where
      "Payment_save newId d (req_loanId req) cand = Inl (ValidationError paths)"
      "''amount'' \<in> set paths" by blast
    with w c assms(1,2) nn show ?thesis
      by (auto simp: createPayment_def)
  qed
  from fail createPayment_Failure [OF fail] msg sch show ?thesis by blast
qed

theorem sub_unit_payment_rejected_witness:
  "find (\<lambda>l. loanId l = req_loanId (example_payment (JNum (1 / 2)))) (loans example_db)
     = Some example_loan
   \<and> status example_loan = ACTIVE
   \<and> ToNumber no_strings (body_amount (example_payment (JNum (1 / 2)))) = Num (1 / 2)
   \<and> (1 / 2 :: rat) \<le> remainingBalance example_loan
   \<and> (\<exists>paths. createPayment no_strings ''PAY-1'' example_db (example_payment (JNum (1 / 2)))
         = (Failure 400 ''Failed to record payment'' (Some (ValidationError paths)), example_db)
        \<and> ''amount'' \<in> set paths)"
proof -
  let ?req = "example_payment (JNum (1 / 2))"
  have h1: "find (\<lambda>l. loanId l = req_loanId ?req) (loans example_db) = Some example_loan"
    by (simp add: example_db_def example_payment_def example_loan_def)
  have h2: "status example_loan = ACTIVE"
    and h6: "(1 / 2 :: rat) \<le> remainingBalance example_loan"
    by (simp_all add: example_loan_def)
  have h3: "ToNumber no_strings (body_amount ?req) = Num (1 / 2)"
    by (simp add: example_payment_def)
  have h4: "(0 :: rat) < 1 / 2" and h5: "(1 / 2 :: rat) < 1" by simp_all
  have w: "req_loanId ?req \<noteq> [] \<and> truthy (body_amount ?req)
          \<and> (\<exists>t. body_paymentType ?req = JStr t \<and> t \<noteq> [])
          \<and> (\<exists>m. body_paymentMethod ?req = JStr m \<and> m \<noteq> [])
          \<and> (\<not> truthy (body_reference ?req) \<or> (\<exists>r. body_reference ?req = JStr r))"
    by (simp add: example_payment_def)
  from sub_unit_payment_rejected [OF h1 h2 h3 h4 h5 h6, of "''PAY-1''"] w
  have "snd (createPayment no_strings ''PAY-1'' example_db ?req) = example_db"
    and "\<exists>paths. fst (createPayment no_strings ''PAY-1'' example_db ?req)
                 = Failure 400 ''Failed to record payment'' (Some (ValidationError paths))
               \<and> ''amount'' \<in> set paths"
    by blast+
  then have "\<exists>paths. createPayment no_strings ''PAY-1'' example_db ?req
         = (Failure 400 ''Failed to record payment'' (Some (ValidationError paths)), example_db)
        \<and> ''amount'' \<in> set paths"
    by (metis prod.collapse)
  with h1 h2 h3 h6 show ?thesis by blast
qed

end
